theory Spec2Isabelle
  imports Main "HOL-Library.Sublist"
begin

section \<open>Certificate generator: strings, status badge, document template\<close>

text \<open>
  The theory embeds \<^verbatim>\<open>src/app.py\<close>: the status badge style, the composition of the
  certificate document (\<^verbatim>\<open>create_certificate_html\<close>), the render pipeline with its
  temporary file (\<^verbatim>\<open>create_certificate\<close>) and the five request handlers.

  A Python string, a well-formed Unicode text, is a \<^typ>\<open>string\<close> holding its UTF-8 bytes,
  the encoding in which the document is written to the temporary file. ASCII text is written as it stands in the
  source; the few characters of the template outside ASCII are spelled as the bytes the
  source file holds for them. Concatenation and \<^verbatim>\<open>in\<close> on strings are concatenation and
  contiguous occurrence on their bytes. What Python counts in characters is counted in
  characters here: \<^verbatim>\<open>len(s)\<close> is \<open>len_chars\<close> and \<^verbatim>\<open>s[:n]\<close> is \<open>take_chars n\<close>.
\<close>

subsection \<open>String operations\<close>

definition lower_char :: "char \<Rightarrow> char" where
  "lower_char c =
     (case map_of (zip ''ABCDEFGHIJKLMNOPQRSTUVWXYZ'' ''abcdefghijklmnopqrstuvwxyz'') c of
        Some d \<Rightarrow> d
      | None \<Rightarrow> c)"

definition upper_char :: "char \<Rightarrow> char" where
  "upper_char c =
     (case map_of (zip ''abcdefghijklmnopqrstuvwxyz'' ''ABCDEFGHIJKLMNOPQRSTUVWXYZ'') c of
        Some d \<Rightarrow> d
      | None \<Rightarrow> c)"

text \<open>
  Lower-casing and upper-casing of the letters A to Z, every other byte kept. On ASCII text
  these are \<^verbatim>\<open>s.lower()\<close> and \<^verbatim>\<open>s.upper()\<close>. The source applies \<^verbatim>\<open>upper\<close> to hexadecimal digits
  only. It applies \<^verbatim>\<open>lower\<close> to the status, to look for ASCII tokens in the result, and there
  \<open>lower\<close> decides as \<^verbatim>\<open>str.lower\<close> does on every string: a character outside ASCII never
  lower-cases to a text that completes one of the tokens. Where the lower-cased text
  itself is written to the document, the lower-casing of the runtime is used (\<open>str_lower\<close>
  below).
\<close>

definition lower :: "string \<Rightarrow> string" where
  "lower s = map lower_char s"

definition upper :: "string \<Rightarrow> string" where
  "upper s = map upper_char s"

definition is_ascii :: "string \<Rightarrow> bool" where
  "is_ascii s = list_all (\<lambda>c. (of_char c :: nat) < 128) s"

text \<open>
  Characters of a UTF-8 text. A byte from 0x80 to 0xBF continues the character begun by
  the byte before; every other byte begins one. \<^verbatim>\<open>len(s)\<close> counts the characters, and
  \<^verbatim>\<open>s[:n]\<close> keeps the first \<open>n\<close> of them, all of them when there are fewer, and never fails.
\<close>

definition is_continuation :: "char \<Rightarrow> bool" where
  "is_continuation c = (128 \<le> (of_char c :: nat) \<and> (of_char c :: nat) < 192)"

definition len_chars :: "string \<Rightarrow> nat" where
  "len_chars s = length (filter (\<lambda>c. \<not> is_continuation c) s)"

fun take_chars :: "nat \<Rightarrow> string \<Rightarrow> string" where
  "take_chars n [] = []"
| "take_chars n (c # cs) =
     (if is_continuation c then c # take_chars n cs
      else (case n of 0 \<Rightarrow> [] | Suc m \<Rightarrow> c # take_chars m cs))"

text \<open>\<^verbatim>\<open>str(n)\<close> for a length: the decimal digits, most significant first.\<close>

definition digit_char :: "nat \<Rightarrow> char" where
  "digit_char d = ''0123456789'' ! d"

fun str_nat :: "nat \<Rightarrow> string" where
  "str_nat n = (if n < 10 then [digit_char n] else str_nat (n div 10) @ [digit_char (n mod 10)])"

declare str_nat.simps [simp del]

text \<open>
  An attribute set is the dictionary parsed from the request body; the values are strings.
  \<^verbatim>\<open>data.get(key, default)\<close> is \<open>dict_get data key dflt\<close>: the value stored under the key
  whatever it is (the empty string too), the default only when the key is absent.
\<close>

type_synonym attrs = "string \<rightharpoonup> string"

definition dict_get :: "attrs \<Rightarrow> string \<Rightarrow> string \<Rightarrow> string" where
  "dict_get data key dflt = (case data key of Some v \<Rightarrow> v | None \<Rightarrow> dflt)"

subsection \<open>Status badge style (\<^verbatim>\<open>get_status_badge_style\<close>)\<close>

text \<open>The four style strings the function returns, in the order of its \<^verbatim>\<open>return\<close> statements.\<close>

definition style_absent :: string where
  "style_absent = ''background: #6c757d; color: white;''"

definition style_success :: string where
  "style_success = ''background: linear-gradient(45deg, #28a745, #20c997); color: white; box-shadow: 0 4px 15px rgba(40, 167, 69, 0.4);''"

definition style_failure :: string where
  "style_failure = ''background: linear-gradient(45deg, #dc3545, #e74c3c); color: white; box-shadow: 0 4px 15px rgba(220, 53, 69, 0.4);''"

definition style_other :: string where
  "style_other = ''background: linear-gradient(45deg, #ffc107, #fd7e14); color: #212529; box-shadow: 0 4px 15px rgba(255, 193, 7, 0.4);''"

text \<open>
  \<^verbatim>\<open>if not status\<close> holds for \<^verbatim>\<open>None\<close> and for the empty string. \<^verbatim>\<open>"pass" in status_lower\<close>
  is \<open>sublist ''pass'' status_lower\<close>: the token occurs as a contiguous run.
\<close>

fun get_status_badge_style :: "string option \<Rightarrow> string" where
  "get_status_badge_style None = style_absent"
| "get_status_badge_style (Some status) =
     (if status = [] then style_absent
      else
        let status_lower = lower status in
        if sublist ''pass'' status_lower \<or> sublist ''success'' status_lower
             \<or> sublist ''complete'' status_lower
        then style_success
        else if sublist ''fail'' status_lower \<or> sublist ''error'' status_lower
        then style_failure
        else style_other)"

subsection \<open>The document template (\<^verbatim>\<open>create_certificate_html\<close>, the f-string)\<close>

text \<open>
  The f-string of \<^verbatim>\<open>create_certificate_html\<close> is a sequence of literal text and
  replacement fields. A replacement field is one of the eight expressions that occur
  between braces in the source; \<^verbatim>\<open>{{\<close> and \<^verbatim>\<open>}}\<close> are the literal braces.
\<close>

datatype field =
    CertId                    \<comment> \<open>\<^verbatim>\<open>{cert_id}\<close>\<close>
  | CertIdLower               \<comment> \<open>\<^verbatim>\<open>{cert_id.lower()}\<close>\<close>
  | IssueDate                 \<comment> \<open>\<^verbatim>\<open>{issue_date}\<close>\<close>
  | CurrentTime               \<comment> \<open>\<^verbatim>\<open>{current_time}\<close>\<close>
  | FinalStatus               \<comment> \<open>\<^verbatim>\<open>{final_status}\<close>\<close>
  | StatusBadgeStyle          \<comment> \<open>\<^verbatim>\<open>{status_badge_style}\<close>\<close>
  | DataGet string string     \<comment> \<open>\<^verbatim>\<open>{data.get('key', 'default')}\<close>\<close>
  | DataGetDay string         \<comment> \<open>\<^verbatim>\<open>{data.get('key', issue_date[:10])}\<close>\<close>

datatype part = Text string | Slot field

text \<open>
  The literal text, line by line. A definition \<open>lines_a_b\<close> holds the lines \<open>a\<close> to \<open>b\<close>
  of \<^verbatim>\<open>src/app.py\<close>, none of which has a replacement field; every line ends with its
  newline. Line 93 contributes the newline after the opening quotes, line 755 the
  indentation before the closing quotes.
\<close>

definition lines_093_096 :: string where
  \<open>lines_093_096 =
   ''\<newline>'' @
   ''        <!DOCTYPE html>\<newline>'' @
   ''        <html lang="en">\<newline>'' @
   ''        <head>\<newline>''\<close>

definition lines_100_147 :: string where
  \<open>lines_100_147 =
   ''            <style>\<newline>'' @
   ''                @import url('https://fonts.googleapis.com/css2?family=Playfair+Display:wght@400;600;700&family=Inter:wght@300;400;500;600;700&display=swap');\<newline>'' @
   ''                \<newline>'' @
   ''                * {\<newline>'' @
   ''                    margin: 0;\<newline>'' @
   ''                    padding: 0;\<newline>'' @
   ''                    box-sizing: border-box;\<newline>'' @
   ''                }\<newline>'' @
   ''                \<newline>'' @
   ''                body {\<newline>'' @
   ''                    font-family: 'Inter', sans-serif;\<newline>'' @
   ''                    background: linear-gradient(135deg, #667eea 0%, #764ba2 100%);\<newline>'' @
   ''                    color: #2c3e50;\<newline>'' @
   ''                    line-height: 1.6;\<newline>'' @
   ''                    min-height: 100vh;\<newline>'' @
   ''                    padding: 0;\<newline>'' @
   ''                }\<newline>'' @
   ''                \<newline>'' @
   ''                .certificate-container {\<newline>'' @
   ''                    max-width: 210mm;\<newline>'' @
   ''                    margin: 0 auto;\<newline>'' @
   ''                    background: #ffffff;\<newline>'' @
   ''                    position: relative;\<newline>'' @
   ''                    overflow: hidden;\<newline>'' @
   ''                }\<newline>'' @
   ''                \<newline>'' @
   ''                /* Decorative Elements */\<newline>'' @
   ''                .cert-border {\<newline>'' @
   ''                    position: absolute;\<newline>'' @
   ''                    top: 15px;\<newline>'' @
   ''                    left: 15px;\<newline>'' @
   ''                    right: 15px;\<newline>'' @
   ''                    bottom: 15px;\<newline>'' @
   ''                    border: 3px solid #c9a96e;\<newline>'' @
   ''                    border-radius: 15px;\<newline>'' @
   ''                }\<newline>'' @
   ''                \<newline>'' @
   ''                .cert-border::before {\<newline>'' @
   ''                    content: '' @ [CHR 0x27] @ [CHR 0x27] @ '';\<newline>'' @
   ''                    position: absolute;\<newline>'' @
   ''                    top: 10px;\<newline>'' @
   ''                    left: 10px;\<newline>'' @
   ''                    right: 10px;\<newline>'' @
   ''                    bottom: 10px;\<newline>'' @
   ''                    border: 1px solid #c9a96e;\<newline>'' @
   ''                    border-radius: 10px;\<newline>'' @
   ''                }\<newline>'' @
   ''                \<newline>''\<close>

definition lines_148_191 :: string where
  \<open>lines_148_191 =
   ''                .corner-ornament {\<newline>'' @
   ''                    position: absolute;\<newline>'' @
   ''                    width: 60px;\<newline>'' @
   ''                    height: 60px;\<newline>'' @
   ''                    background: radial-gradient(circle, #c9a96e 0%, #8b7355 100%);\<newline>'' @
   ''                    transform: rotate(45deg);\<newline>'' @
   ''                }\<newline>'' @
   ''                \<newline>'' @
   ''                .corner-ornament.top-left { top: 25px; left: 25px; }\<newline>'' @
   ''                .corner-ornament.top-right { top: 25px; right: 25px; }\<newline>'' @
   ''                .corner-ornament.bottom-left { bottom: 25px; left: 25px; }\<newline>'' @
   ''                .corner-ornament.bottom-right { bottom: 25px; right: 25px; }\<newline>'' @
   ''                \<newline>'' @
   ''                .corner-ornament::before {\<newline>'' @
   ''                    content: '' @ [CHR 0x27] @ [CHR 0x27] @ '';\<newline>'' @
   ''                    position: absolute;\<newline>'' @
   ''                    top: 50%;\<newline>'' @
   ''                    left: 50%;\<newline>'' @
   ''                    width: 30px;\<newline>'' @
   ''                    height: 30px;\<newline>'' @
   ''                    background: #fff;\<newline>'' @
   ''                    transform: translate(-50%, -50%);\<newline>'' @
   ''                    border-radius: 50%;\<newline>'' @
   ''                }\<newline>'' @
   ''                \<newline>'' @
   ''                .watermark {\<newline>'' @
   ''                    position: absolute;\<newline>'' @
   ''                    top: 50%;\<newline>'' @
   ''                    left: 50%;\<newline>'' @
   ''                    transform: translate(-50%, -50%) rotate(-45deg);\<newline>'' @
   ''                    font-size: 150px;\<newline>'' @
   ''                    font-weight: 100;\<newline>'' @
   ''                    color: rgba(201, 169, 110, 0.05);\<newline>'' @
   ''                    z-index: 1;\<newline>'' @
   ''                    font-family: 'Playfair Display', serif;\<newline>'' @
   ''                    letter-spacing: 10px;\<newline>'' @
   ''                }\<newline>'' @
   ''                \<newline>'' @
   ''                .content {\<newline>'' @
   ''                    position: relative;\<newline>'' @
   ''                    z-index: 2;\<newline>'' @
   ''                    padding: 60px 50px 40px;\<newline>'' @
   ''                }\<newline>'' @
   ''                \<newline>''\<close>

definition lines_192_234 :: string where
  \<open>lines_192_234 =
   ''                /* Header Section */\<newline>'' @
   ''                .header {\<newline>'' @
   ''                    text-align: center;\<newline>'' @
   ''                    margin-bottom: 40px;\<newline>'' @
   ''                }\<newline>'' @
   ''                \<newline>'' @
   ''                .company-logo {\<newline>'' @
   ''                    width: 120px;\<newline>'' @
   ''                    height: 120px;\<newline>'' @
   ''                    margin: 0 auto 20px;\<newline>'' @
   ''                    background: linear-gradient(135deg, #667eea 0%, #764ba2 100%);\<newline>'' @
   ''                    border-radius: 50%;\<newline>'' @
   ''                    display: flex;\<newline>'' @
   ''                    align-items: center;\<newline>'' @
   ''                    justify-content: center;\<newline>'' @
   ''                    color: white;\<newline>'' @
   ''                    font-size: 48px;\<newline>'' @
   ''                    font-weight: bold;\<newline>'' @
   ''                    box-shadow: 0 10px 30px rgba(0,0,0,0.1);\<newline>'' @
   ''                }\<newline>'' @
   ''                \<newline>'' @
   ''                .cert-title {\<newline>'' @
   ''                    font-family: 'Playfair Display', serif;\<newline>'' @
   ''                    font-size: 42px;\<newline>'' @
   ''                    font-weight: 700;\<newline>'' @
   ''                    color: #2c3e50;\<newline>'' @
   ''                    margin-bottom: 8px;\<newline>'' @
   ''                    text-shadow: 1px 1px 2px rgba(0,0,0,0.1);\<newline>'' @
   ''                }\<newline>'' @
   ''                \<newline>'' @
   ''                .cert-subtitle {\<newline>'' @
   ''                    font-size: 16px;\<newline>'' @
   ''                    color: #7f8c8d;\<newline>'' @
   ''                    font-weight: 300;\<newline>'' @
   ''                    letter-spacing: 1px;\<newline>'' @
   ''                    text-transform: uppercase;\<newline>'' @
   ''                    margin-bottom: 30px;\<newline>'' @
   ''                    line-height: 1.4;\<newline>'' @
   ''                    word-wrap: break-word;\<newline>'' @
   ''                    max-width: 100%;\<newline>'' @
   ''                    padding: 0 20px;\<newline>'' @
   ''                }\<newline>'' @
   ''                \<newline>''\<close>

definition lines_235_280 :: string where
  \<open>lines_235_280 =
   ''                /* Certificate Info Bar */\<newline>'' @
   ''                .cert-info-bar {\<newline>'' @
   ''                    background: linear-gradient(135deg, #f8f9fa 0%, #e9ecef 100%);\<newline>'' @
   ''                    border-radius: 15px;\<newline>'' @
   ''                    padding: 25px;\<newline>'' @
   ''                    margin-bottom: 40px;\<newline>'' @
   ''                    box-shadow: inset 0 2px 10px rgba(0,0,0,0.05);\<newline>'' @
   ''                    border: 1px solid #dee2e6;\<newline>'' @
   ''                }\<newline>'' @
   ''                \<newline>'' @
   ''                .cert-info-grid {\<newline>'' @
   ''                    display: grid;\<newline>'' @
   ''                    grid-template-columns: repeat(2, 1fr);\<newline>'' @
   ''                    gap: 20px;\<newline>'' @
   ''                }\<newline>'' @
   ''                \<newline>'' @
   ''                .info-item {\<newline>'' @
   ''                    display: flex;\<newline>'' @
   ''                    align-items: center;\<newline>'' @
   ''                    justify-content: space-between;\<newline>'' @
   ''                    padding: 15px 20px;\<newline>'' @
   ''                    background: white;\<newline>'' @
   ''                    border-radius: 10px;\<newline>'' @
   ''                    box-shadow: 0 2px 8px rgba(0,0,0,0.08);\<newline>'' @
   ''                    border-left: 4px solid #667eea;\<newline>'' @
   ''                }\<newline>'' @
   ''                \<newline>'' @
   ''                .info-label {\<newline>'' @
   ''                    font-weight: 600;\<newline>'' @
   ''                    color: #495057;\<newline>'' @
   ''                    font-size: 14px;\<newline>'' @
   ''                }\<newline>'' @
   ''                \<newline>'' @
   ''                .info-value {\<newline>'' @
   ''                    font-weight: 700;\<newline>'' @
   ''                    color: #212529;\<newline>'' @
   ''                    font-size: 16px;\<newline>'' @
   ''                }\<newline>'' @
   ''                \<newline>'' @
   ''                /* Status Badge */\<newline>'' @
   ''                .status-badge {\<newline>'' @
   ''                    display: inline-block;\<newline>'' @
   ''                    padding: 8px 20px;\<newline>'' @
   ''                    border-radius: 25px;\<newline>'' @
   ''                    font-size: 14px;\<newline>'' @
   ''                    font-weight: 700;\<newline>''\<close>

definition lines_284_331 :: string where
  \<open>lines_284_331 =
   ''                }\<newline>'' @
   ''                \<newline>'' @
   ''                .status-checkmark {\<newline>'' @
   ''                    color: #28a745;\<newline>'' @
   ''                    font-weight: bold;\<newline>'' @
   ''                    font-size: 16px;\<newline>'' @
   ''                    margin-right: 5px;\<newline>'' @
   ''                }\<newline>'' @
   ''                \<newline>'' @
   ''                /* Data Sections */\<newline>'' @
   ''                .data-section {\<newline>'' @
   ''                    margin-bottom: 35px;\<newline>'' @
   ''                    page-break-inside: avoid;\<newline>'' @
   ''                }\<newline>'' @
   ''                \<newline>'' @
   ''                .section-header {\<newline>'' @
   ''                    display: flex;\<newline>'' @
   ''                    align-items: center;\<newline>'' @
   ''                    margin-bottom: 20px;\<newline>'' @
   ''                    padding: 15px 0;\<newline>'' @
   ''                    border-bottom: 2px solid #e9ecef;\<newline>'' @
   ''                }\<newline>'' @
   ''                \<newline>'' @
   ''                .section-icon {\<newline>'' @
   ''                    width: 40px;\<newline>'' @
   ''                    height: 40px;\<newline>'' @
   ''                    border-radius: 50%;\<newline>'' @
   ''                    display: flex;\<newline>'' @
   ''                    align-items: center;\<newline>'' @
   ''                    justify-content: center;\<newline>'' @
   ''                    color: white;\<newline>'' @
   ''                    font-weight: bold;\<newline>'' @
   ''                    margin-right: 15px;\<newline>'' @
   ''                    font-size: 18px;\<newline>'' @
   ''                }\<newline>'' @
   ''                \<newline>'' @
   ''                .device-icon { background: linear-gradient(135deg, #28a745, #20c997); }\<newline>'' @
   ''                .process-icon { background: linear-gradient(135deg, #fd7e14, #f39c12); }\<newline>'' @
   ''                .verification-icon { background: linear-gradient(135deg, #dc3545, #e74c3c); }\<newline>'' @
   ''                .additional-icon { background: linear-gradient(135deg, #6f42c1, #8e44ad); }\<newline>'' @
   ''                \<newline>'' @
   ''                .section-title {\<newline>'' @
   ''                    font-family: 'Playfair Display', serif;\<newline>'' @
   ''                    font-size: 24px;\<newline>'' @
   ''                    font-weight: 600;\<newline>'' @
   ''                    color: #2c3e50;\<newline>'' @
   ''                }\<newline>'' @
   ''                \<newline>''\<close>

definition lines_332_367 :: string where
  \<open>lines_332_367 =
   ''                .data-grid {\<newline>'' @
   ''                    display: grid;\<newline>'' @
   ''                    grid-template-columns: repeat(2, 1fr);\<newline>'' @
   ''                    gap: 15px;\<newline>'' @
   ''                }\<newline>'' @
   ''                \<newline>'' @
   ''                .data-item {\<newline>'' @
   ''                    background: #f8f9fa;\<newline>'' @
   ''                    padding: 20px;\<newline>'' @
   ''                    border-radius: 12px;\<newline>'' @
   ''                    border: 1px solid #e9ecef;\<newline>'' @
   ''                    transition: all 0.3s ease;\<newline>'' @
   ''                }\<newline>'' @
   ''                \<newline>'' @
   ''                .data-item:hover {\<newline>'' @
   ''                    background: #fff;\<newline>'' @
   ''                    box-shadow: 0 5px 15px rgba(0,0,0,0.1);\<newline>'' @
   ''                    transform: translateY(-2px);\<newline>'' @
   ''                }\<newline>'' @
   ''                \<newline>'' @
   ''                .data-label {\<newline>'' @
   ''                    font-size: 12px;\<newline>'' @
   ''                    font-weight: 600;\<newline>'' @
   ''                    color: #6c757d;\<newline>'' @
   ''                    text-transform: uppercase;\<newline>'' @
   ''                    letter-spacing: 1px;\<newline>'' @
   ''                    margin-bottom: 8px;\<newline>'' @
   ''                }\<newline>'' @
   ''                \<newline>'' @
   ''                .data-value {\<newline>'' @
   ''                    font-size: 16px;\<newline>'' @
   ''                    font-weight: 500;\<newline>'' @
   ''                    color: #212529;\<newline>'' @
   ''                    word-break: break-all;\<newline>'' @
   ''                }\<newline>'' @
   ''                \<newline>''\<close>

definition lines_368_416 :: string where
  \<open>lines_368_416 =
   ''                /* Certification Statement */\<newline>'' @
   ''                .certification-statement {\<newline>'' @
   ''                    background: linear-gradient(135deg, #e8f5e8 0%, #f0f8f0 100%);\<newline>'' @
   ''                    border: 2px solid #28a745;\<newline>'' @
   ''                    border-radius: 15px;\<newline>'' @
   ''                    padding: 35px;\<newline>'' @
   ''                    margin: 60px 0 40px 0;\<newline>'' @
   ''                    text-align: center;\<newline>'' @
   ''                    position: relative;\<newline>'' @
   ''                    box-shadow: 0 8px 25px rgba(40, 167, 69, 0.15);\<newline>'' @
   ''                    page-break-before: always;\<newline>'' @
   ''                    page-break-after: always;\<newline>'' @
   ''                }\<newline>'' @
   ''                \<newline>'' @
   ''                \<newline>'' @
   ''                .statement-title {\<newline>'' @
   ''                    font-family: 'Playfair Display', serif;\<newline>'' @
   ''                    font-size: 28px;\<newline>'' @
   ''                    font-weight: 700;\<newline>'' @
   ''                    color: #155724;\<newline>'' @
   ''                    margin-bottom: 20px;\<newline>'' @
   ''                }\<newline>'' @
   ''                \<newline>'' @
   ''                .statement-text {\<newline>'' @
   ''                    font-size: 16px;\<newline>'' @
   ''                    color: #155724;\<newline>'' @
   ''                    line-height: 1.8;\<newline>'' @
   ''                    margin-bottom: 15px;\<newline>'' @
   ''                }\<newline>'' @
   ''                \<newline>'' @
   ''                /* Signature Section */\<newline>'' @
   ''                .signature-section {\<newline>'' @
   ''                    margin-top: 50px;\<newline>'' @
   ''                    page-break-inside: avoid;\<newline>'' @
   ''                    page-break-before: always;\<newline>'' @
   ''                }\<newline>'' @
   ''                \<newline>'' @
   ''                .signature-grid {\<newline>'' @
   ''                    display: grid;\<newline>'' @
   ''                    grid-template-columns: repeat(2, 1fr);\<newline>'' @
   ''                    gap: 60px;\<newline>'' @
   ''                    margin-top: 40px;\<newline>'' @
   ''                }\<newline>'' @
   ''                \<newline>'' @
   ''                .signature-box {\<newline>'' @
   ''                    text-align: center;\<newline>'' @
   ''                    position: relative;\<newline>'' @
   ''                }\<newline>'' @
   ''                \<newline>''\<close>

definition lines_417_455 :: string where
  \<open>lines_417_455 =
   ''                .signature-line {\<newline>'' @
   ''                    height: 2px;\<newline>'' @
   ''                    background: linear-gradient(to right, #667eea, #764ba2);\<newline>'' @
   ''                    margin: 50px 20px 15px;\<newline>'' @
   ''                    border-radius: 2px;\<newline>'' @
   ''                }\<newline>'' @
   ''                \<newline>'' @
   ''                .signature-role {\<newline>'' @
   ''                    font-weight: 700;\<newline>'' @
   ''                    font-size: 16px;\<newline>'' @
   ''                    color: #2c3e50;\<newline>'' @
   ''                    margin-bottom: 8px;\<newline>'' @
   ''                }\<newline>'' @
   ''                \<newline>'' @
   ''                .signature-name {\<newline>'' @
   ''                    font-size: 18px;\<newline>'' @
   ''                    color: #495057;\<newline>'' @
   ''                    margin-bottom: 5px;\<newline>'' @
   ''                }\<newline>'' @
   ''                \<newline>'' @
   ''                .signature-date {\<newline>'' @
   ''                    font-size: 12px;\<newline>'' @
   ''                    color: #6c757d;\<newline>'' @
   ''                }\<newline>'' @
   ''                \<newline>'' @
   ''                /* Footer */\<newline>'' @
   ''                .certificate-footer {\<newline>'' @
   ''                    margin-top: 40px;\<newline>'' @
   ''                    padding-top: 30px;\<newline>'' @
   ''                    border-top: 1px solid #dee2e6;\<newline>'' @
   ''                    text-align: center;\<newline>'' @
   ''                }\<newline>'' @
   ''                \<newline>'' @
   ''                .footer-text {\<newline>'' @
   ''                    font-size: 11px;\<newline>'' @
   ''                    color: #6c757d;\<newline>'' @
   ''                    margin-bottom: 10px;\<newline>'' @
   ''                }\<newline>'' @
   ''                \<newline>''\<close>

definition lines_456_503 :: string where
  \<open>lines_456_503 =
   ''                .qr-code {\<newline>'' @
   ''                    width: 80px;\<newline>'' @
   ''                    height: 80px;\<newline>'' @
   ''                    margin: 20px auto 10px;\<newline>'' @
   ''                    background: linear-gradient(135deg, #667eea, #764ba2);\<newline>'' @
   ''                    border-radius: 10px;\<newline>'' @
   ''                    display: flex;\<newline>'' @
   ''                    align-items: center;\<newline>'' @
   ''                    justify-content: center;\<newline>'' @
   ''                    color: white;\<newline>'' @
   ''                    font-size: 12px;\<newline>'' @
   ''                    font-weight: bold;\<newline>'' @
   ''                }\<newline>'' @
   ''                \<newline>'' @
   ''                /* Print Styles */\<newline>'' @
   ''                @media print {\<newline>'' @
   ''                    body { background: none; }\<newline>'' @
   ''                    .certificate-container { box-shadow: none; }\<newline>'' @
   ''                    .certification-statement { \<newline>'' @
   ''                        page-break-before: always; \<newline>'' @
   ''                        page-break-after: always;\<newline>'' @
   ''                        margin-top: 80px;\<newline>'' @
   ''                    }\<newline>'' @
   ''                    .signature-section { \<newline>'' @
   ''                        page-break-before: always; \<newline>'' @
   ''                        margin-top: 80px;\<newline>'' @
   ''                    }\<newline>'' @
   ''                }\<newline>'' @
   ''                \<newline>'' @
   ''                /* Page Break Utilities for wkhtmltopdf */\<newline>'' @
   ''                .page-break-before {\<newline>'' @
   ''                    page-break-before: always;\<newline>'' @
   ''                }\<newline>'' @
   ''                \<newline>'' @
   ''                .page-break-inside-avoid {\<newline>'' @
   ''                    page-break-inside: avoid;\<newline>'' @
   ''                }\<newline>'' @
   ''            </style>\<newline>'' @
   ''        </head>\<newline>'' @
   ''        <body>\<newline>'' @
   ''            <div class="certificate-container">\<newline>'' @
   ''                <div class="cert-border"></div>\<newline>'' @
   ''                <div class="corner-ornament top-left"></div>\<newline>'' @
   ''                <div class="corner-ornament top-right"></div>\<newline>'' @
   ''                <div class="corner-ornament bottom-left"></div>\<newline>'' @
   ''                <div class="corner-ornament bottom-right"></div>\<newline>'' @
   ''                <div class="watermark">CERTIFIED</div>\<newline>'' @
   ''                \<newline>''\<close>

definition lines_504_511 :: string where
  \<open>lines_504_511 =
   ''                <div class="content">\<newline>'' @
   ''                    <!-- Header -->\<newline>'' @
   ''                    <div class="header">\<newline>'' @
   ''                        <div class="company-logo">DS</div>\<newline>'' @
   ''                        <h1 class="cert-title">Certificate of Authenticity</h1>\<newline>'' @
   ''                        <p class="cert-subtitle">Data Sanitization & Security Verification</p>\<newline>'' @
   ''                    </div>\<newline>'' @
   ''                    \<newline>''\<close>

definition lines_512_514 :: string where
  \<open>lines_512_514 =
   ''                    <!-- Certificate Info Bar -->\<newline>'' @
   ''                    <div class="cert-info-bar">\<newline>'' @
   ''                        <div class="cert-info-grid">\<newline>''\<close>

definition line_518 :: string where
  \<open>line_518 =
   ''                            </div>\<newline>''\<close>

definition line_522 :: string where
  \<open>line_522 =
   ''                            </div>\<newline>''\<close>

definition line_526 :: string where
  \<open>line_526 =
   ''                            </div>\<newline>''\<close>

definition lines_530_533 :: string where
  \<open>lines_530_533 =
   ''                            </div>\<newline>'' @
   ''                        </div>\<newline>'' @
   ''                    </div>\<newline>'' @
   ''                    \<newline>''\<close>

definition lines_534_540 :: string where
  \<open>lines_534_540 =
   ''                    <!-- Device Information -->\<newline>'' @
   ''                    <div class="data-section">\<newline>'' @
   ''                        <div class="section-header">\<newline>'' @
   ''                            <div class="section-icon device-icon">'' @ [CHR 0xEF, CHR 0xA3, CHR 0xBF, CHR 0xC3, CHR 0xBC, CHR 0xC3, CHR 0xAD, CHR 0xC3, CHR 0xA6] @ ''</div>\<newline>'' @
   ''                            <h2 class="section-title">Device Information</h2>\<newline>'' @
   ''                        </div>\<newline>'' @
   ''                        <div class="data-grid">\<newline>''\<close>

definition line_544 :: string where
  \<open>line_544 =
   ''                            </div>\<newline>''\<close>

definition line_548 :: string where
  \<open>line_548 =
   ''                            </div>\<newline>''\<close>

definition line_552 :: string where
  \<open>line_552 =
   ''                            </div>\<newline>''\<close>

definition line_556 :: string where
  \<open>line_556 =
   ''                            </div>\<newline>''\<close>

definition line_560 :: string where
  \<open>line_560 =
   ''                            </div>\<newline>''\<close>

definition line_564 :: string where
  \<open>line_564 =
   ''                            </div>\<newline>''\<close>

definition line_568 :: string where
  \<open>line_568 =
   ''                            </div>\<newline>''\<close>

definition lines_572_575 :: string where
  \<open>lines_572_575 =
   ''                            </div>\<newline>'' @
   ''                        </div>\<newline>'' @
   ''                    </div>\<newline>'' @
   ''                    \<newline>''\<close>

definition lines_576_582 :: string where
  \<open>lines_576_582 =
   ''                    <!-- Sanitization Process -->\<newline>'' @
   ''                    <div class="data-section">\<newline>'' @
   ''                        <div class="section-header">\<newline>'' @
   ''                            <div class="section-icon process-icon">'' @ [CHR 0xEF, CHR 0xA3, CHR 0xBF, CHR 0xC3, CHR 0xBC, CHR 0xC3, CHR 0xAE, CHR 0xC3, CHR 0x91] @ ''</div>\<newline>'' @
   ''                            <h2 class="section-title">Sanitization Process</h2>\<newline>'' @
   ''                        </div>\<newline>'' @
   ''                        <div class="data-grid">\<newline>''\<close>

definition line_586 :: string where
  \<open>line_586 =
   ''                            </div>\<newline>''\<close>

definition line_590 :: string where
  \<open>line_590 =
   ''                            </div>\<newline>''\<close>

definition line_594 :: string where
  \<open>line_594 =
   ''                            </div>\<newline>''\<close>

definition line_598 :: string where
  \<open>line_598 =
   ''                            </div>\<newline>''\<close>

definition line_602 :: string where
  \<open>line_602 =
   ''                            </div>\<newline>''\<close>

definition line_606 :: string where
  \<open>line_606 =
   ''                            </div>\<newline>''\<close>

definition line_610 :: string where
  \<open>line_610 =
   ''                            </div>\<newline>''\<close>

definition lines_614_617 :: string where
  \<open>lines_614_617 =
   ''                            </div>\<newline>'' @
   ''                        </div>\<newline>'' @
   ''                    </div>\<newline>'' @
   ''                    \<newline>''\<close>

definition lines_618_624 :: string where
  \<open>lines_618_624 =
   ''                    <!-- Verification Results -->\<newline>'' @
   ''                    <div class="data-section">\<newline>'' @
   ''                        <div class="section-header">\<newline>'' @
   ''                            <div class="section-icon verification-icon">'' @ [CHR 0xE2, CHR 0x80, CHR 0x9A, CHR 0xC3, CHR 0xBA, CHR 0xC3, CHR 0xAC] @ ''</div>\<newline>'' @
   ''                            <h2 class="section-title">Verification Results</h2>\<newline>'' @
   ''                        </div>\<newline>'' @
   ''                        <div class="data-grid">\<newline>''\<close>

definition line_628 :: string where
  \<open>line_628 =
   ''                            </div>\<newline>''\<close>

definition line_632 :: string where
  \<open>line_632 =
   ''                            </div>\<newline>''\<close>

definition line_636 :: string where
  \<open>line_636 =
   ''                            </div>\<newline>''\<close>

definition line_640 :: string where
  \<open>line_640 =
   ''                            </div>\<newline>''\<close>

definition line_644 :: string where
  \<open>line_644 =
   ''                            </div>\<newline>''\<close>

definition line_648 :: string where
  \<open>line_648 =
   ''                            </div>\<newline>''\<close>

definition line_652 :: string where
  \<open>line_652 =
   ''                            </div>\<newline>''\<close>

definition lines_656_659 :: string where
  \<open>lines_656_659 =
   ''                            </div>\<newline>'' @
   ''                        </div>\<newline>'' @
   ''                    </div>\<newline>'' @
   ''                    \<newline>''\<close>

definition lines_660_666 :: string where
  \<open>lines_660_666 =
   ''                    <!-- Additional Information -->\<newline>'' @
   ''                    <div class="data-section">\<newline>'' @
   ''                        <div class="section-header">\<newline>'' @
   ''                            <div class="section-icon additional-icon">'' @ [CHR 0xEF, CHR 0xA3, CHR 0xBF, CHR 0xC3, CHR 0xBC, CHR 0xC3, CHR 0xAC, CHR 0xC3, CHR 0xA3] @ ''</div>\<newline>'' @
   ''                            <h2 class="section-title">Additional Information</h2>\<newline>'' @
   ''                        </div>\<newline>'' @
   ''                        <div class="data-grid">\<newline>''\<close>

definition line_670 :: string where
  \<open>line_670 =
   ''                            </div>\<newline>''\<close>

definition line_674 :: string where
  \<open>line_674 =
   ''                            </div>\<newline>''\<close>

definition line_678 :: string where
  \<open>line_678 =
   ''                            </div>\<newline>''\<close>

definition line_682 :: string where
  \<open>line_682 =
   ''                            </div>\<newline>''\<close>

definition line_686 :: string where
  \<open>line_686 =
   ''                            </div>\<newline>''\<close>

definition lines_690_692 :: string where
  \<open>lines_690_692 =
   ''                            </div>\<newline>'' @
   ''                        </div>\<newline>'' @
   ''                        \<newline>''\<close>

definition lines_696_715 :: string where
  \<open>lines_696_715 =
   ''                        </div>\<newline>'' @
   ''                    </div>\<newline>'' @
   ''                    \<newline>'' @
   ''                    <!-- Certification Statement -->\<newline>'' @
   ''                    <div class="certification-statement">\<newline>'' @
   ''                        <h3 class="statement-title">Official Certification</h3>\<newline>'' @
   ''                        <p class="statement-text">\<newline>'' @
   ''                            This certificate verifies that the above-mentioned storage device has undergone comprehensive \<newline>'' @
   ''                            data sanitization procedures in full compliance with industry standards and regulatory requirements.\<newline>'' @
   ''                        </p>\<newline>'' @
   ''                        <p class="statement-text">\<newline>'' @
   ''                            All confidential data has been permanently destroyed using cryptographically secure methods, \<newline>'' @
   ''                            rendering any previously stored information completely irrecoverable through any known forensic techniques.\<newline>'' @
   ''                        </p>\<newline>'' @
   ''                        <p class="statement-text">\<newline>'' @
   ''                            <strong>This certification guarantees the complete sanitization of the specified device and \<newline>'' @
   ''                            confirms its readiness for secure redeployment or disposal.</strong>\<newline>'' @
   ''                        </p>\<newline>'' @
   ''                    </div>\<newline>'' @
   ''                    \<newline>''\<close>

definition lines_716_723 :: string where
  \<open>lines_716_723 =
   ''                    <!-- Signatures -->\<newline>'' @
   ''                    <div class="signature-section">\<newline>'' @
   ''                        <div class="section-header">\<newline>'' @
   ''                            <div class="section-icon" style="background: linear-gradient(135deg, #17a2b8, #138496);">'' @ [CHR 0xE2, CHR 0x80, CHR 0x9A, CHR 0xC3, CHR 0xBA, CHR 0xC3, CHR 0xA7, CHR 0xC3, CHR 0x94, CHR 0xE2, CHR 0x88, CHR 0x8F, CHR 0xC3, CHR 0xA8] @ ''</div>\<newline>'' @
   ''                            <h2 class="section-title">Authorization</h2>\<newline>'' @
   ''                        </div>\<newline>'' @
   ''                        <div class="signature-grid">\<newline>'' @
   ''                            <div class="signature-box">\<newline>''\<close>

definition lines_728_729 :: string where
  \<open>lines_728_729 =
   ''                            </div>\<newline>'' @
   ''                            <div class="signature-box">\<newline>''\<close>

definition lines_734_737 :: string where
  \<open>lines_734_737 =
   ''                            </div>\<newline>'' @
   ''                        </div>\<newline>'' @
   ''                    </div>\<newline>'' @
   ''                    \<newline>''\<close>

definition lines_738_739 :: string where
  \<open>lines_738_739 =
   ''                    <!-- Footer -->\<newline>'' @
   ''                    <div class="certificate-footer">\<newline>''\<close>

definition lines_743_745 :: string where
  \<open>lines_743_745 =
   ''                        </div>\<newline>'' @
   ''                        <p class="footer-text">\<newline>'' @
   ''                            This certificate contains sensitive security information. Handle in accordance with data protection policies.\<newline>''\<close>

definition lines_749_755 :: string where
  \<open>lines_749_755 =
   ''                        </p>\<newline>'' @
   ''                    </div>\<newline>'' @
   ''                </div>\<newline>'' @
   ''            </div>\<newline>'' @
   ''        </body>\<newline>'' @
   ''        </html>\<newline>'' @
   ''        ''\<close>

definition template_head :: "part list" where
  \<open>template_head =
   [Text lines_093_096,
    Text ''            <meta charset="UTF-8">\<newline>'',
    Text ''            <meta name="viewport" content="width=device-width, initial-scale=1.0">\<newline>'',
    Text ''            <title>Certificate of Authenticity - '', Slot CertId, Text ''</title>\<newline>'',
    Text lines_100_147,
    Text lines_148_191,
    Text lines_192_234,
    Text lines_235_280,
    Text ''                    text-transform: uppercase;\<newline>'',
    Text ''                    letter-spacing: 1px;\<newline>'',
    Text ''                    '', Slot StatusBadgeStyle, Text ''\<newline>'',
    Text lines_284_331,
    Text lines_332_367,
    Text lines_368_416,
    Text lines_417_455,
    Text lines_456_503,
    Text lines_504_511]\<close>

definition template_info_bar :: "part list" where
  \<open>template_info_bar =
   [Text lines_512_514,
    Text ''                            <div class="info-item">\<newline>'',
    Text ''                                <span class="info-label">Certificate ID</span>\<newline>'',
    Text ''                                <span class="info-value">'', Slot CertId, Text ''</span>\<newline>'',
    Text line_518,
    Text ''                            <div class="info-item">\<newline>'',
    Text ''                                <span class="info-label">Issue Date</span>\<newline>'',
    Text ''                                <span class="info-value">'', Slot IssueDate, Text ''</span>\<newline>'',
    Text line_522,
    Text ''                            <div class="info-item">\<newline>'',
    Text ''                                <span class="info-label">Technician</span>\<newline>'',
    Text ''                                <span class="info-value">'', Slot (DataGet ''technician_name'' ''N/A''), Text ''</span>\<newline>'',
    Text line_526,
    Text ''                            <div class="info-item">\<newline>'',
    Text ''                                <span class="info-label">Status</span>\<newline>'',
    Text (''                                <span class="status-badge"><span class="status-checkmark">'' @ [CHR 0xE2, CHR 0x80, CHR 0x9A, CHR 0xC3, CHR 0xBA, CHR 0xC3, CHR 0xAC] @ ''</span>''), Slot FinalStatus, Text ''</span>\<newline>'',
    Text lines_530_533]\<close>

definition template_device_information :: "part list" where
  \<open>template_device_information =
   [Text lines_534_540,
    Text ''                            <div class="data-item">\<newline>'',
    Text ''                                <div class="data-label">Device Type</div>\<newline>'',
    Text ''                                <div class="data-value">'', Slot (DataGet ''device_type'' ''N/A''), Text ''</div>\<newline>'',
    Text line_544,
    Text ''                            <div class="data-item">\<newline>'',
    Text ''                                <div class="data-label">Manufacturer</div>\<newline>'',
    Text ''                                <div class="data-value">'', Slot (DataGet ''manufacturer'' ''N/A''), Text ''</div>\<newline>'',
    Text line_548,
    Text ''                            <div class="data-item">\<newline>'',
    Text ''                                <div class="data-label">Model</div>\<newline>'',
    Text ''                                <div class="data-value">'', Slot (DataGet ''model'' ''N/A''), Text ''</div>\<newline>'',
    Text line_552,
    Text ''                            <div class="data-item">\<newline>'',
    Text ''                                <div class="data-label">Serial Number</div>\<newline>'',
    Text ''                                <div class="data-value">'', Slot (DataGet ''serial_number'' ''N/A''), Text ''</div>\<newline>'',
    Text line_556,
    Text ''                            <div class="data-item">\<newline>'',
    Text ''                                <div class="data-label">Asset Tag</div>\<newline>'',
    Text ''                                <div class="data-value">'', Slot (DataGet ''asset_tag'' ''N/A''), Text ''</div>\<newline>'',
    Text line_560,
    Text ''                            <div class="data-item">\<newline>'',
    Text ''                                <div class="data-label">Capacity</div>\<newline>'',
    Text ''                                <div class="data-value">'', Slot (DataGet ''capacity'' ''N/A''), Text ''</div>\<newline>'',
    Text line_564,
    Text ''                            <div class="data-item">\<newline>'',
    Text ''                                <div class="data-label">Interface</div>\<newline>'',
    Text ''                                <div class="data-value">'', Slot (DataGet ''interface'' ''N/A''), Text ''</div>\<newline>'',
    Text line_568,
    Text ''                            <div class="data-item">\<newline>'',
    Text ''                                <div class="data-label">Firmware Version</div>\<newline>'',
    Text ''                                <div class="data-value">'', Slot (DataGet ''firmware_version'' ''N/A''), Text ''</div>\<newline>'',
    Text lines_572_575]\<close>

definition template_sanitization_process :: "part list" where
  \<open>template_sanitization_process =
   [Text lines_576_582,
    Text ''                            <div class="data-item">\<newline>'',
    Text ''                                <div class="data-label">Method Used</div>\<newline>'',
    Text ''                                <div class="data-value">'', Slot (DataGet ''sanitization_method'' ''N/A''), Text ''</div>\<newline>'',
    Text line_586,
    Text ''                            <div class="data-item">\<newline>'',
    Text ''                                <div class="data-label">Standard Compliance</div>\<newline>'',
    Text ''                                <div class="data-value">'', Slot (DataGet ''standard_compliance'' ''N/A''), Text ''</div>\<newline>'',
    Text line_590,
    Text ''                            <div class="data-item">\<newline>'',
    Text ''                                <div class="data-label">Number of Passes</div>\<newline>'',
    Text ''                                <div class="data-value">'', Slot (DataGet ''number_of_passes'' ''N/A''), Text ''</div>\<newline>'',
    Text line_594,
    Text ''                            <div class="data-item">\<newline>'',
    Text ''                                <div class="data-label">Algorithm</div>\<newline>'',
    Text ''                                <div class="data-value">'', Slot (DataGet ''algorithm'' ''N/A''), Text ''</div>\<newline>'',
    Text line_598,
    Text ''                            <div class="data-item">\<newline>'',
    Text ''                                <div class="data-label">Start Time</div>\<newline>'',
    Text ''                                <div class="data-value">'', Slot (DataGet ''start_time'' ''N/A''), Text ''</div>\<newline>'',
    Text line_602,
    Text ''                            <div class="data-item">\<newline>'',
    Text ''                                <div class="data-label">Duration</div>\<newline>'',
    Text ''                                <div class="data-value">'', Slot (DataGet ''duration'' ''N/A''), Text ''</div>\<newline>'',
    Text line_606,
    Text ''                            <div class="data-item">\<newline>'',
    Text ''                                <div class="data-label">Software Used</div>\<newline>'',
    Text ''                                <div class="data-value">'', Slot (DataGet ''software_used'' ''N/A''), Text ''</div>\<newline>'',
    Text line_610,
    Text ''                            <div class="data-item">\<newline>'',
    Text ''                                <div class="data-label">Software Version</div>\<newline>'',
    Text ''                                <div class="data-value">'', Slot (DataGet ''software_version'' ''N/A''), Text ''</div>\<newline>'',
    Text lines_614_617]\<close>

definition template_verification_results :: "part list" where
  \<open>template_verification_results =
   [Text lines_618_624,
    Text ''                            <div class="data-item">\<newline>'',
    Text ''                                <div class="data-label">Pre-wipe Status</div>\<newline>'',
    Text ''                                <div class="data-value">'', Slot (DataGet ''pre_wipe_verification'' ''N/A''), Text ''</div>\<newline>'',
    Text line_628,
    Text ''                            <div class="data-item">\<newline>'',
    Text ''                                <div class="data-label">Post-wipe Status</div>\<newline>'',
    Text ''                                <div class="data-value">'', Slot (DataGet ''post_wipe_verification'' ''N/A''), Text ''</div>\<newline>'',
    Text line_632,
    Text ''                            <div class="data-item">\<newline>'',
    Text ''                                <div class="data-label">Verification Method</div>\<newline>'',
    Text ''                                <div class="data-value">'', Slot (DataGet ''verification_method'' ''N/A''), Text ''</div>\<newline>'',
    Text line_636,
    Text ''                            <div class="data-item">\<newline>'',
    Text ''                                <div class="data-label">Sectors Processed</div>\<newline>'',
    Text ''                                <div class="data-value">'', Slot (DataGet ''sectors_processed'' ''N/A''), Text ''</div>\<newline>'',
    Text line_640,
    Text ''                            <div class="data-item">\<newline>'',
    Text ''                                <div class="data-label">Data Remnants</div>\<newline>'',
    Text ''                                <div class="data-value">'', Slot (DataGet ''data_remnants'' ''N/A''), Text ''</div>\<newline>'',
    Text line_644,
    Text ''                            <div class="data-item">\<newline>'',
    Text ''                                <div class="data-label">OS Installation</div>\<newline>'',
    Text ''                                <div class="data-value">'', Slot (DataGet ''os_installation_status'' ''N/A''), Text ''</div>\<newline>'',
    Text line_648,
    Text ''                            <div class="data-item">\<newline>'',
    Text ''                                <div class="data-label">OS Version</div>\<newline>'',
    Text ''                                <div class="data-value">'', Slot (DataGet ''os_version'' ''N/A''), Text ''</div>\<newline>'',
    Text line_652,
    Text ''                            <div class="data-item">\<newline>'',
    Text ''                                <div class="data-label">Boot Test</div>\<newline>'',
    Text ''                                <div class="data-value">'', Slot (DataGet ''boot_test_result'' ''N/A''), Text ''</div>\<newline>'',
    Text lines_656_659]\<close>

definition template_additional_information :: "part list" where
  \<open>template_additional_information =
   [Text lines_660_666,
    Text ''                            <div class="data-item">\<newline>'',
    Text ''                                <div class="data-label">Customer Name</div>\<newline>'',
    Text ''                                <div class="data-value">'', Slot (DataGet ''customer_name'' ''N/A''), Text ''</div>\<newline>'',
    Text line_670,
    Text ''                            <div class="data-item">\<newline>'',
    Text ''                                <div class="data-label">Work Order</div>\<newline>'',
    Text ''                                <div class="data-value">'', Slot (DataGet ''work_order'' ''N/A''), Text ''</div>\<newline>'',
    Text line_674,
    Text ''                            <div class="data-item">\<newline>'',
    Text ''                                <div class="data-label">Location</div>\<newline>'',
    Text ''                                <div class="data-value">'', Slot (DataGet ''location'' ''N/A''), Text ''</div>\<newline>'',
    Text line_678,
    Text ''                            <div class="data-item">\<newline>'',
    Text ''                                <div class="data-label">Witness</div>\<newline>'',
    Text ''                                <div class="data-value">'', Slot (DataGet ''witness_name'' ''N/A''), Text ''</div>\<newline>'',
    Text line_682,
    Text ''                            <div class="data-item">\<newline>'',
    Text ''                                <div class="data-label">Temperature</div>\<newline>'',
    Text ''                                <div class="data-value">'', Slot (DataGet ''temperature'' ''N/A''), Text ''</div>\<newline>'',
    Text line_686,
    Text ''                            <div class="data-item">\<newline>'',
    Text ''                                <div class="data-label">Humidity</div>\<newline>'',
    Text ''                                <div class="data-value">'', Slot (DataGet ''humidity'' ''N/A''), Text ''</div>\<newline>'',
    Text lines_690_692,
    Text ''                        <div class="data-item" style="grid-column: 1 / -1; margin-top: 15px;">\<newline>'',
    Text ''                            <div class="data-label">Notes</div>\<newline>'',
    Text ''                            <div class="data-value">'', Slot (DataGet ''notes'' ''N/A''), Text ''</div>\<newline>'',
    Text lines_696_715]\<close>

definition template_signatures :: "part list" where
  \<open>template_signatures =
   [Text lines_716_723,
    Text ''                                <div class="signature-role">Certified Technician</div>\<newline>'',
    Text ''                                <div class="signature-line"></div>\<newline>'',
    Text ''                                <div class="signature-name">'', Slot (DataGet ''technician_name'' ''John Smith''), Text ''</div>\<newline>'',
    Text ''                                <div class="signature-date">Date: '', Slot (DataGetDay ''technician_date''), Text ''</div>\<newline>'',
    Text lines_728_729,
    Text ''                                <div class="signature-role">Quality Supervisor</div>\<newline>'',
    Text ''                                <div class="signature-line"></div>\<newline>'',
    Text ''                                <div class="signature-name">'', Slot (DataGet ''supervisor_name'' ''Jane Doe''), Text ''</div>\<newline>'',
    Text ''                                <div class="signature-date">Date: '', Slot (DataGetDay ''supervisor_date''), Text ''</div>\<newline>'',
    Text lines_734_737]\<close>

definition template_footer :: "part list" where
  \<open>template_footer =
   [Text lines_738_739,
    Text ''                        <div class="qr-code">\<newline>'',
    Text ''                            QR CODE<br>\<newline>'',
    Text ''                            '', Slot CertId, Text ''\<newline>'',
    Text lines_743_745,
    Text ''                        </p>\<newline>'',
    Text ''                        <p class="footer-text">\<newline>'',
    Text ''                            Generated: '', Slot CurrentTime, Text '' | Document ID: '', Slot CertId, Text '' | Verification: secure-verify.com/'', Slot CertIdLower, Text ''\<newline>'',
    Text lines_749_755]\<close>

definition certificate_template :: "part list" where
  "certificate_template =
   template_head @
   template_info_bar @
   template_device_information @
   template_sanitization_process @
   template_verification_results @
   template_additional_information @
   template_signatures @
   template_footer"

subsection \<open>Composing the document\<close>

text \<open>
  What one call of \<^verbatim>\<open>create_certificate_html\<close> reads from outside: the clock, formatted by
  \<^verbatim>\<open>strftime('%Y-%m-%d %H:%M:%S')\<close>, and the 32 hexadecimal digits of \<^verbatim>\<open>uuid.uuid4().hex\<close>.
  The handlers read the clock again (\<^verbatim>\<open>isoformat()\<close>, \<^verbatim>\<open>strftime('%Y%m%d_%H%M%S')\<close>) and
  call \<^verbatim>\<open>base64.b64encode\<close>, a library function taken as it is. So is \<open>str_lower\<close>, the
  method \<^verbatim>\<open>str.lower\<close> of the runtime: the Unicode lower-casing of a whole string, which on
  ASCII text is \<open>lower\<close>.
\<close>

record env =
  strftime_now :: string
  uuid4_hex :: string
  isoformat_now :: string
  filestamp_now :: string
  b64encode :: "string \<Rightarrow> string"
  str_lower :: "string \<Rightarrow> string"

text \<open>The local variables of \<^verbatim>\<open>create_certificate_html\<close> (lines 87 to 91).\<close>

definition current_time :: "env \<Rightarrow> string" where
  "current_time e = strftime_now e"

definition issue_date :: "env \<Rightarrow> attrs \<Rightarrow> string" where
  "issue_date e data = dict_get data ''issue_date'' (current_time e)"

definition cert_id :: "env \<Rightarrow> attrs \<Rightarrow> string" where
  "cert_id e data = dict_get data ''certificate_id'' (''CERT-'' @ upper (take 8 (uuid4_hex e)))"

definition final_status :: "attrs \<Rightarrow> string" where
  "final_status data = dict_get data ''final_status'' ''VERIFIED''"

definition status_badge_style :: "attrs \<Rightarrow> string" where
  "status_badge_style data = get_status_badge_style (Some (final_status data))"

text \<open>
  The value of a replacement field; \<^verbatim>\<open>issue_date[:10]\<close> is the first ten characters,
  \<open>take_chars 10\<close>, and \<^verbatim>\<open>cert_id.lower()\<close> is \<open>str_lower\<close>.
\<close>

fun slot_value :: "env \<Rightarrow> attrs \<Rightarrow> field \<Rightarrow> string" where
  "slot_value e data CertId = cert_id e data"
| "slot_value e data CertIdLower = str_lower e (cert_id e data)"
| "slot_value e data IssueDate = issue_date e data"
| "slot_value e data CurrentTime = current_time e"
| "slot_value e data FinalStatus = final_status data"
| "slot_value e data StatusBadgeStyle = status_badge_style data"
| "slot_value e data (DataGet key dflt) = dict_get data key dflt"
| "slot_value e data (DataGetDay key) = dict_get data key (take_chars 10 (issue_date e data))"

fun render :: "env \<Rightarrow> attrs \<Rightarrow> part \<Rightarrow> string" where
  "render e data (Text s) = s"
| "render e data (Slot f) = slot_value e data f"

definition render_parts :: "env \<Rightarrow> attrs \<Rightarrow> part list \<Rightarrow> string" where
  "render_parts e data ps = concat (map (render e data) ps)"

definition create_certificate_html :: "env \<Rightarrow> attrs \<Rightarrow> string" where
  "create_certificate_html e data = render_parts e data certificate_template"

section \<open>Render pipeline (\<^verbatim>\<open>create_certificate\<close>)\<close>

text \<open>
  The generator object holds the options of the renderer and the configuration found by
  \<^verbatim>\<open>setup_wkhtmltopdf_config\<close>: the path of the binary, or \<^verbatim>\<open>None\<close>. An option without a value
  is a flag; the three numbers are written in decimal.
\<close>

record generator =
  pdfkit_config :: "string option"

definition options :: "(string \<times> string option) list" where
  "options =
    [(''page-size'', Some ''A4''),
     (''orientation'', Some ''Portrait''),
     (''margin-top'', Some ''0.5in''),
     (''margin-right'', Some ''0.5in''),
     (''margin-bottom'', Some ''0.5in''),
     (''margin-left'', Some ''0.5in''),
     (''encoding'', Some ''UTF-8''),
     (''no-outline'', None),
     (''enable-local-file-access'', None),
     (''print-media-type'', None),
     (''disable-smart-shrinking'', None),
     (''dpi'', Some ''300''),
     (''image-quality'', Some ''100''),
     (''minimum-font-size'', Some ''8'')]"

text \<open>
  The state the pipeline works on: the files that exist (path to content), the log, and how
  many times the renderer has been invoked.
\<close>

datatype log_entry = Info string | Error string

record world =
  files :: "string \<rightharpoonup> string"
  log :: "log_entry list"
  renderer_calls :: nat

definition log_info :: "string \<Rightarrow> world \<Rightarrow> world" where
  "log_info msg w = w\<lparr>log := log w @ [Info msg]\<rparr>"

definition log_error :: "string \<Rightarrow> world \<Rightarrow> world" where
  "log_error msg w = w\<lparr>log := log w @ [Error msg]\<rparr>"

text \<open>
  What the operating system and the renderer do in one invocation. An exception is the
  message \<^verbatim>\<open>str(e)\<close> it carries, and a call that may raise returns \<open>Inl message\<close>.
  \<^item> \<open>named_temporary_file\<close>: \<^verbatim>\<open>tempfile.NamedTemporaryFile(..., delete=False)\<close> raises, or creates
    a file and gives its path;
  \<^item> \<open>write_error\<close>: \<^verbatim>\<open>temp_html.write(html_content)\<close> raises, or writes the text;
  \<^item> \<open>from_file\<close>: \<^verbatim>\<open>pdfkit.from_file(temp_html_path, False, options=..., configuration=...)\<close>,
    the external renderer, given the content of the file, the options and the configuration:
    it raises with its diagnostic, or returns the bytes of the PDF;
  \<^item> \<open>unlink_error\<close>: \<^verbatim>\<open>os.unlink(temp_html_path)\<close> raises, or deletes the file;
  \<^item> \<open>format_exc\<close>: the text of \<^verbatim>\<open>traceback.format_exc()\<close> for the exception being handled.
\<close>

record io =
  named_temporary_file :: "string + string"
  write_error :: "string option"
  from_file :: "string option \<Rightarrow> (string \<times> string option) list \<Rightarrow> string option \<Rightarrow> string + string"
  unlink_error :: "string option"
  format_exc :: "string \<Rightarrow> string"

text \<open>The inner \<^verbatim>\<open>try\<close> block (lines 774 to 786): one call of the renderer.\<close>

definition generate_pdf :: "generator \<Rightarrow> io \<Rightarrow> string \<Rightarrow> world \<Rightarrow> (string + string) \<times> world" where
  "generate_pdf gen i temp_html_path w =
     (let w1 = log_info ''Starting PDF generation with wkhtmltopdf...'' w;
          w2 = (case pdfkit_config gen of
                  Some config \<Rightarrow> log_info ''Using configured wkhtmltopdf path'' w1
                | None \<Rightarrow> log_info ''Using system PATH for wkhtmltopdf'' w1);
          result = from_file i (files w2 temp_html_path) options (pdfkit_config gen);
          w3 = w2\<lparr>renderer_calls := renderer_calls w2 + 1\<rparr>
      in case result of
           Inl err \<Rightarrow> (Inl err, w3)
         | Inr pdf_data \<Rightarrow>
             (Inr pdf_data,
              log_info (''PDF generated successfully, size: '' @ str_nat (length pdf_data) @ '' bytes'') w3))"

text \<open>
  The \<^verbatim>\<open>finally\<close> block (lines 787 to 791). It runs after the inner \<^verbatim>\<open>try\<close> whatever that
  gave, \<open>pending\<close>. When \<^verbatim>\<open>os.unlink\<close> raises, its exception leaves the block in place of
  \<open>pending\<close>, as an exception raised in a \<^verbatim>\<open>finally\<close> clause does.
\<close>

definition cleanup :: "io \<Rightarrow> string \<Rightarrow> string + string \<Rightarrow> world \<Rightarrow> (string + string) \<times> world" where
  "cleanup i temp_html_path pending w =
     (if files w temp_html_path \<noteq> None
      then (case unlink_error i of
              Some err \<Rightarrow> (Inl err, w)
            | None \<Rightarrow>
                (pending,
                 log_info ''Temporary HTML file cleaned up''
                   (w\<lparr>files := (files w)(temp_html_path := None)\<rparr>)))
      else (pending, w))"

text \<open>The outer \<^verbatim>\<open>except Exception\<close> (lines 793 to 797): log twice, raise again.\<close>

definition reraise :: "io \<Rightarrow> string \<Rightarrow> world \<Rightarrow> (string + string) \<times> world" where
  "reraise i err w =
     (Inl err,
      log_error (''Full traceback: '' @ format_exc i err)
        (log_error (''Error creating certificate: '' @ err) w))"

text \<open>
  \<^verbatim>\<open>create_certificate\<close>. The \<^verbatim>\<open>with\<close> block creates the file, writes the document and closes
  the file; since \<^verbatim>\<open>delete=False\<close>, the file stays when the block is left, also by an
  exception of \<^verbatim>\<open>write\<close> (the file is then left as it was created). The result is the
  exception raised, \<open>Inl\<close>, or the bytes of the buffer returned, \<open>Inr\<close>.
\<close>

definition create_certificate ::
  "generator \<Rightarrow> env \<Rightarrow> io \<Rightarrow> attrs \<Rightarrow> world \<Rightarrow> (string + string) \<times> world" where
  "create_certificate gen e i data w =
     (let w1 = log_info ''Starting certificate generation...'' w;
          html_content = create_certificate_html e data;
          w2 = log_info (''HTML content generated, length: '' @ str_nat (len_chars html_content)) w1
      in case named_temporary_file i of
           Inl err \<Rightarrow> reraise i err w2
         | Inr temp_html_path \<Rightarrow>
             (case write_error i of
                Some err \<Rightarrow> reraise i err (w2\<lparr>files := (files w2)(temp_html_path \<mapsto> [])\<rparr>)
              | None \<Rightarrow>
                  (let w3 = w2\<lparr>files := (files w2)(temp_html_path \<mapsto> html_content)\<rparr>;
                       w4 = log_info (''Temporary HTML file created: '' @ temp_html_path) w3;
                       (pending, w5) = generate_pdf gen i temp_html_path w4;
                       (outcome, w6) = cleanup i temp_html_path pending w5
                   in case outcome of
                        Inl err \<Rightarrow> reraise i err w6
                      | Inr pdf \<Rightarrow> (Inr pdf, w6))))"

section \<open>Request handlers\<close>

text \<open>
  A response is what \<^verbatim>\<open>jsonify\<close> is given, the dictionary in the order written, with the
  status code (200 when the handler gives none), or the file handed to \<^verbatim>\<open>send_file\<close>.

  A handler begins with \<^verbatim>\<open>data = request.get_json()\<close>. The call raises, \<open>Inl\<close> with the message
  of the exception, as it does for a request without a JSON body; or it returns, \<open>Inr\<close>,
  the value parsed: \<open>None\<close> for the body \<^verbatim>\<open>null\<close>, or the attribute set. \<^verbatim>\<open>if not data\<close> holds for
  \<open>None\<close> and for the empty dictionary.
\<close>

datatype json = JBool bool | JStr string | JNum nat

datatype response =
    Json "(string \<times> json) list" nat
  | SendFile string string string    \<comment> \<open>content, \<^verbatim>\<open>download_name\<close>, \<^verbatim>\<open>mimetype\<close>\<close>

type_synonym get_json = "string + attrs option"

definition no_data :: "attrs option \<Rightarrow> bool" where
  "no_data data = (case data of None \<Rightarrow> True | Some d \<Rightarrow> d = Map.empty)"

definition len_data :: "attrs \<Rightarrow> nat" where
  "len_data data = card (dom data)"

text \<open>
  \<^verbatim>\<open>generate_certificate\<close>. The whole body is in a \<^verbatim>\<open>try\<close>: an exception of \<^verbatim>\<open>get_json\<close> and one
  of \<^verbatim>\<open>create_certificate\<close> both reach the \<^verbatim>\<open>except Exception\<close> of lines 822 to 827.
\<close>

definition generate_certificate_failed :: "string \<Rightarrow> world \<Rightarrow> response \<times> world" where
  "generate_certificate_failed err w =
     (Json [(''success'', JBool False),
            (''error'', JStr (''Failed to generate certificate: '' @ err))] 500,
      log_error (''Error generating certificate: '' @ err) w)"

definition generate_certificate ::
  "generator \<Rightarrow> env \<Rightarrow> io \<Rightarrow> get_json \<Rightarrow> world \<Rightarrow> response \<times> world" where
  "generate_certificate gen e i request w =
     (case request of
        Inl err \<Rightarrow> generate_certificate_failed err w
      | Inr data \<Rightarrow>
          if no_data data then (Json [(''error'', JStr ''No data provided'')] 400, w)
          else
            let data = the data;
                w1 = log_info (''Generating certificate with '' @ str_nat (len_data data)
                                 @ '' parameters'') w
            in case create_certificate gen e i data w1 of
                 (Inr pdf_buffer, w2) \<Rightarrow>
                   (Json [(''success'', JBool True),
                          (''message'', JStr ''Professional certificate generated successfully''),
                          (''pdf_base64'', JStr (b64encode e pdf_buffer)),
                          (''filename'',
                             JStr (''certificate_'' @ dict_get data ''certificate_id'' ''unknown''
                                     @ ''.pdf'')),
                          (''generated_at'', JStr (isoformat_now e))] 200,
                    w2)
               | (Inl err, w2) \<Rightarrow> generate_certificate_failed err w2)"

text \<open>\<^verbatim>\<open>generate_certificate_file\<close>, with its \<^verbatim>\<open>except Exception\<close> of lines 849 to 854.\<close>

definition generate_certificate_file_failed :: "string \<Rightarrow> world \<Rightarrow> response \<times> world" where
  "generate_certificate_file_failed err w =
     (Json [(''success'', JBool False),
            (''error'', JStr (''Failed to generate certificate: '' @ err))] 500,
      log_error (''Error generating certificate file: '' @ err) w)"

definition generate_certificate_file ::
  "generator \<Rightarrow> env \<Rightarrow> io \<Rightarrow> get_json \<Rightarrow> world \<Rightarrow> response \<times> world" where
  "generate_certificate_file gen e i request w =
     (case request of
        Inl err \<Rightarrow> generate_certificate_file_failed err w
      | Inr data \<Rightarrow>
          if no_data data then (Json [(''error'', JStr ''No data provided'')] 400, w)
          else
            let data = the data;
                w1 = log_info (''Generating certificate file with '' @ str_nat (len_data data)
                                 @ '' parameters'') w
            in case create_certificate gen e i data w1 of
                 (Inr pdf_buffer, w2) \<Rightarrow>
                   (let filename = ''certificate_'' @ dict_get data ''certificate_id'' ''unknown''
                                     @ ''_'' @ filestamp_now e @ ''.pdf''
                    in (SendFile pdf_buffer filename ''application/pdf'', w2))
               | (Inl err, w2) \<Rightarrow> generate_certificate_file_failed err w2)"

text \<open>
  \<^verbatim>\<open>preview_certificate\<close>, with its \<^verbatim>\<open>except Exception\<close> of lines 872 to 877; composing the
  document raises nothing.
\<close>

definition preview_certificate :: "env \<Rightarrow> get_json \<Rightarrow> world \<Rightarrow> response \<times> world" where
  "preview_certificate e request w =
     (case request of
        Inl err \<Rightarrow>
          (Json [(''success'', JBool False),
                 (''error'', JStr (''Failed to generate preview: '' @ err))] 500,
           log_error (''Error generating preview: '' @ err) w)
      | Inr data \<Rightarrow>
          if no_data data then (Json [(''error'', JStr ''No data provided'')] 400, w)
          else
            let html_content = create_certificate_html e (the data)
            in (Json [(''success'', JBool True),
                      (''html_content'', JStr html_content),
                      (''message'', JStr ''Professional certificate preview generated'')] 200,
                w))"

definition health_check :: "env \<Rightarrow> response" where
  "health_check e =
     Json [(''status'', JStr ''healthy''),
           (''service'', JStr ''Professional Certificate Generator (wkhtmltopdf)''),
           (''timestamp'', JStr (isoformat_now e))] 200"

text \<open>
  \<^verbatim>\<open>test_endpoint\<close> has no \<^verbatim>\<open>try\<close>: an exception of \<^verbatim>\<open>get_json\<close> leaves the handler, \<open>Inl\<close>;
  otherwise the handler returns its response, \<open>Inr\<close>.
\<close>

definition test_endpoint :: "env \<Rightarrow> get_json \<Rightarrow> string + response" where
  "test_endpoint e request =
     (case request of
        Inl err \<Rightarrow> Inl err
      | Inr data \<Rightarrow>
          Inr (Json [(''message'', JStr ''Professional Certificate API is working''),
                     (''received_params'', JNum (if no_data data then 0 else len_data (the data))),
                     (''timestamp'', JStr (isoformat_now e))] 200))"

section \<open>Reading the document\<close>

text \<open>
  The lines of the document that show a value, with the line that labels them, as the
  template writes them: the properties below are about these texts occurring in the document.
\<close>

definition title_line :: "string \<Rightarrow> string" where
  \<open>title_line v = ''            <title>Certificate of Authenticity - '' @ v @ ''</title>\<newline>''\<close>

definition info_item :: "string \<Rightarrow> string \<Rightarrow> string" where
  \<open>info_item label v =
     ''                                <span class="info-label">'' @ label @ ''</span>\<newline>'' @
     ''                                <span class="info-value">'' @ v @ ''</span>\<newline>''\<close>

definition status_item :: "string \<Rightarrow> string" where
  \<open>status_item v =
     ''                                <span class="info-label">Status</span>\<newline>'' @
     ''                                <span class="status-badge"><span class="status-checkmark">'' @
     [CHR 0xE2, CHR 0x80, CHR 0x9A, CHR 0xC3, CHR 0xBA, CHR 0xC3, CHR 0xAC] @ ''</span>'' @ v @
     ''</span>\<newline>''\<close>

definition data_item :: "string \<Rightarrow> string \<Rightarrow> string" where
  \<open>data_item label v =
     ''                                <div class="data-label">'' @ label @ ''</div>\<newline>'' @
     ''                                <div class="data-value">'' @ v @ ''</div>\<newline>''\<close>

definition notes_item :: "string \<Rightarrow> string" where
  \<open>notes_item v =
     ''                            <div class="data-label">Notes</div>\<newline>'' @
     ''                            <div class="data-value">'' @ v @ ''</div>\<newline>''\<close>

definition signature_name :: "string \<Rightarrow> string \<Rightarrow> string" where
  \<open>signature_name role name =
     ''                                <div class="signature-role">'' @ role @ ''</div>\<newline>'' @
     ''                                <div class="signature-line"></div>\<newline>'' @
     ''                                <div class="signature-name">'' @ name @ ''</div>\<newline>''\<close>

definition signature_box :: "string \<Rightarrow> string \<Rightarrow> string \<Rightarrow> string" where
  \<open>signature_box role name date =
     signature_name role name @
     ''                                <div class="signature-date">Date: '' @ date @ ''</div>\<newline>''\<close>

definition qr_placeholder :: "string \<Rightarrow> string" where
  \<open>qr_placeholder v =
     ''                        <div class="qr-code">\<newline>'' @
     ''                            QR CODE<br>\<newline>'' @
     ''                            '' @ v @ ''\<newline>''\<close>

definition footer_line :: "string \<Rightarrow> string \<Rightarrow> string \<Rightarrow> string" where
  \<open>footer_line generated document_id link =
     ''                            Generated: '' @ generated @ '' | Document ID: '' @ document_id @
     '' | Verification: secure-verify.com/'' @ link @ ''\<newline>''\<close>

text \<open>
  The items of the four data grids, label and key, in the order of the template: device
  information, sanitization process, verification results, additional information.
\<close>

definition device_fields :: "(string \<times> string) list" where
  "device_fields =
    [(''Device Type'', ''device_type''), (''Manufacturer'', ''manufacturer''),
     (''Model'', ''model''), (''Serial Number'', ''serial_number''),
     (''Asset Tag'', ''asset_tag''), (''Capacity'', ''capacity''),
     (''Interface'', ''interface''), (''Firmware Version'', ''firmware_version'')]"

definition process_fields :: "(string \<times> string) list" where
  "process_fields =
    [(''Method Used'', ''sanitization_method''), (''Standard Compliance'', ''standard_compliance''),
     (''Number of Passes'', ''number_of_passes''), (''Algorithm'', ''algorithm''),
     (''Start Time'', ''start_time''), (''Duration'', ''duration''),
     (''Software Used'', ''software_used''), (''Software Version'', ''software_version'')]"

definition verification_fields :: "(string \<times> string) list" where
  "verification_fields =
    [(''Pre-wipe Status'', ''pre_wipe_verification''), (''Post-wipe Status'', ''post_wipe_verification''),
     (''Verification Method'', ''verification_method''), (''Sectors Processed'', ''sectors_processed''),
     (''Data Remnants'', ''data_remnants''), (''OS Installation'', ''os_installation_status''),
     (''OS Version'', ''os_version''), (''Boot Test'', ''boot_test_result'')]"

definition additional_fields :: "(string \<times> string) list" where
  "additional_fields =
    [(''Customer Name'', ''customer_name''), (''Work Order'', ''work_order''),
     (''Location'', ''location''), (''Witness'', ''witness_name''),
     (''Temperature'', ''temperature''), (''Humidity'', ''humidity'')]"

definition data_grid_fields :: "(string \<times> string) list" where
  "data_grid_fields = device_fields @ process_fields @ verification_fields @ additional_fields"

definition data_item_parts :: "string \<Rightarrow> string \<Rightarrow> part list" where
  \<open>data_item_parts label key =
     [Text (''                                <div class="data-label">'' @ label @ ''</div>\<newline>''),
      Text ''                                <div class="data-value">'',
      Slot (DataGet key ''N/A''),
      Text ''</div>\<newline>'']\<close>

section \<open>Sample inputs\<close>

definition example_env :: env where
  "example_env =
     \<lparr>strftime_now = ''2024-03-15 14:30:00'',
      uuid4_hex = ''1a2b3c4d5e6f47a8b9c0d1e2f3a4b5c6'',
      isoformat_now = ''2024-03-15T14:30:00.250000'',
      filestamp_now = ''20240315_143000'',
      b64encode = (\<lambda>bytes. ''JVBERi0xLjQ=''),
      str_lower = lower\<rparr>"

text \<open>
  A generator without a configured path, a state with no files, and four behaviours of
  the operating system and the renderer: all goes well; the renderer fails; the renderer
  succeeds and the deletion of the temporary file fails; both fail.
\<close>

definition example_gen :: generator where
  "example_gen = \<lparr>pdfkit_config = None\<rparr>"

definition empty_world :: world where
  "empty_world = \<lparr>files = Map.empty, log = [], renderer_calls = 0\<rparr>"

definition io_ok :: io where
  "io_ok =
     \<lparr>named_temporary_file = Inr ''/tmp/tmpk3v9x2ab.html'',
      write_error = None,
      from_file = (\<lambda>content opts config. Inr ''%PDF-1.4''),
      unlink_error = None,
      format_exc = (\<lambda>err. ''Traceback (most recent call last): '' @ err)\<rparr>"

definition io_render_fails :: io where
  "io_render_fails =
     io_ok\<lparr>from_file := (\<lambda>content opts config. Inl ''wkhtmltopdf reported an error: Exit with code 1'')\<rparr>"

definition io_unlink_fails :: io where
  "io_unlink_fails = io_ok\<lparr>unlink_error := Some ''[Errno 13] Permission denied''\<rparr>"

definition io_both_fail :: io where
  "io_both_fail = io_render_fails\<lparr>unlink_error := Some ''[Errno 13] Permission denied''\<rparr>"

text \<open>Two attribute sets, with and without an identifier.\<close>

definition example_data :: attrs where
  "example_data =
     [''certificate_id'' \<mapsto> ''CERT-TEST-1'', ''final_status'' \<mapsto> ''PASSED'',
      ''device_type'' \<mapsto> ''SSD'']"

definition example_data_no_id :: attrs where
  "example_data_no_id = [''final_status'' \<mapsto> ''PASSED'', ''device_type'' \<mapsto> ''SSD'']"

section \<open>Properties\<close>

subsection \<open>Auxiliary facts\<close>

lemma styles_distinct:
  "distinct [style_absent, style_success, style_failure, style_other]"
  by (simp add: style_absent_def style_success_def style_failure_def style_other_def)

lemma lower_Nil: "lower [] = []"
  by (simp add: lower_def)

lemma upper_hex_digits: "\<forall>c \<in> set ''0123456789abcdef''. upper_char c \<in> set ''0123456789ABCDEF''"
  by code_simp
lemma lower_char_fixes_lower: "\<forall>d \<in> set ''abcdefghijklmnopqrstuvwxyz''. lower_char d = d"
  by code_simp

lemma lower_char_idem: "lower_char (lower_char c) = lower_char c"
proof (cases "map_of (zip ''ABCDEFGHIJKLMNOPQRSTUVWXYZ'' ''abcdefghijklmnopqrstuvwxyz'') c")
  case None
  then show ?thesis by (simp only: lower_char_def option.case)
next
  case (Some d)
  then have "(c, d) \<in> set (zip ''ABCDEFGHIJKLMNOPQRSTUVWXYZ'' ''abcdefghijklmnopqrstuvwxyz'')"
    by (rule map_of_SomeD)
  then have "d \<in> set ''abcdefghijklmnopqrstuvwxyz''"
    by (rule set_zip_rightD)
  with lower_char_fixes_lower have "lower_char d = d" by blast
  moreover from Some have "lower_char c = d" by (simp only: lower_char_def option.case)
  ultimately show ?thesis by simp
qed

lemma lower_idem: "lower (lower s) = lower s"
  by (simp add: lower_def lower_char_idem)

lemma upper_hex_token:
  assumes "set s \<subseteq> set ''0123456789abcdef''"
  shows "set (upper (take 8 s)) \<subseteq> set ''0123456789ABCDEF''"
proof
  fix x assume "x \<in> set (upper (take 8 s))"
  then obtain c where c: "c \<in> set (take 8 s)" and x: "x = upper_char c"
    by (auto simp: upper_def)
  from c have "c \<in> set s" by (rule in_set_takeD)
  with assms have "c \<in> set ''0123456789abcdef''" by blast
  with upper_hex_digits x show "x \<in> set ''0123456789ABCDEF''" by blast
qed

lemma render_parts_append:
  "render_parts e data (ps @ qs) = render_parts e data ps @ render_parts e data qs"
  by (simp add: render_parts_def)

lemma sublist_render_parts:
  assumes "sublist ps qs"
  shows "sublist (render_parts e data ps) (render_parts e data qs)"
proof -
  from assms obtain pre post where "qs = pre @ ps @ post"
    by (auto simp: sublist_def)
  then show ?thesis by (simp add: render_parts_append)
qed

lemma sublist_in_right: "sublist xs ys \<Longrightarrow> sublist xs (zs @ ys)"
  by (metis sublist_append)

lemma sublist_in_left: "sublist xs ys \<Longrightarrow> sublist xs (ys @ zs)"
  by (metis sublist_append)

lemma sublist_front: "sublist (xs @ ys) zs \<Longrightarrow> sublist xs zs"
  by (metis sublist_append_rightI sublist_order.order_trans)

text \<open>A run of parts of one section of the template is a run of parts of the template.\<close>

lemma in_head: "sublist ps template_head \<Longrightarrow> sublist ps certificate_template"
  unfolding certificate_template_def by (intro sublist_in_right sublist_in_left)

lemma in_info_bar: "sublist ps template_info_bar \<Longrightarrow> sublist ps certificate_template"
  unfolding certificate_template_def by (intro sublist_in_right sublist_in_left)

lemma in_device_information:
  "sublist ps template_device_information \<Longrightarrow> sublist ps certificate_template"
  unfolding certificate_template_def by (intro sublist_in_right sublist_in_left)

lemma in_sanitization_process:
  "sublist ps template_sanitization_process \<Longrightarrow> sublist ps certificate_template"
  unfolding certificate_template_def by (intro sublist_in_right sublist_in_left)

lemma in_verification_results:
  "sublist ps template_verification_results \<Longrightarrow> sublist ps certificate_template"
  unfolding certificate_template_def by (intro sublist_in_right sublist_in_left)

lemma in_additional_information:
  "sublist ps template_additional_information \<Longrightarrow> sublist ps certificate_template"
  unfolding certificate_template_def by (intro sublist_in_right sublist_in_left)

lemma in_signatures: "sublist ps template_signatures \<Longrightarrow> sublist ps certificate_template"
  unfolding certificate_template_def by (intro sublist_in_right sublist_in_left)

lemma in_footer: "sublist ps template_footer \<Longrightarrow> sublist ps certificate_template"
  unfolding certificate_template_def by (intro sublist_in_right)

text \<open>The text of a run of parts of the template occurs in the document.\<close>

lemma doc_sublist:
  "sublist ps certificate_template \<Longrightarrow>
     sublist (render_parts e data ps) (create_certificate_html e data)"
  unfolding create_certificate_html_def by (rule sublist_render_parts)

text \<open>Counting and cutting characters.\<close>

lemma len_chars_Nil: "len_chars [] = 0"
  by (simp add: len_chars_def)

lemma len_chars_Cons:
  "len_chars (c # cs) = (if is_continuation c then len_chars cs else Suc (len_chars cs))"
  by (simp add: len_chars_def)

lemma len_chars_take_chars: "len_chars (take_chars n s) = min n (len_chars s)"
proof (induction s arbitrary: n)
  case Nil
  show ?case by (simp add: len_chars_def)
next
  case (Cons c cs)
  show ?case
  proof (cases "is_continuation c")
    case True
    then show ?thesis by (simp add: len_chars_Cons Cons.IH)
  next
    case False
    then show ?thesis by (cases n) (simp_all add: len_chars_Nil len_chars_Cons Cons.IH)
  qed
qed

lemma take_chars_all: "len_chars s \<le> n \<Longrightarrow> take_chars n s = s"
proof (induction s arbitrary: n)
  case Nil
  show ?case by simp
next
  case (Cons c cs)
  show ?case
  proof (cases "is_continuation c")
    case True
    with Cons show ?thesis by (simp add: len_chars_Cons)
  next
    case False
    with Cons show ?thesis by (cases n) (simp_all add: len_chars_Cons)
  qed
qed

lemma take_chars_ascii: "is_ascii s \<Longrightarrow> take_chars n s = take n s"
proof (induction s arbitrary: n)
  case Nil
  show ?case by simp
next
  case (Cons c cs)
  then have "\<not> is_continuation c" and "is_ascii cs"
    by (simp_all add: is_ascii_def is_continuation_def)
  with Cons.IH show ?case by (cases n) simp_all
qed

subsection \<open>Where the values stand in the document\<close>

lemma title_in_doc:
  "sublist (title_line (cert_id e data)) (create_certificate_html e data)"
proof -
  have "sublist [Text ''            <title>Certificate of Authenticity - '', Slot CertId,
                 Text ''</title>\<newline>''] template_head"
    by (simp add: template_head_def sublist_Cons_right)
  from doc_sublist [OF in_head [OF this], of e data]
  show ?thesis by (simp add: render_parts_def title_line_def)
qed

lemma certificate_id_in_doc:
  \<open>sublist (info_item ''Certificate ID'' (cert_id e data)) (create_certificate_html e data)\<close>
proof -
  have \<open>sublist [Text ''                                <span class="info-label">Certificate ID</span>\<newline>'',
                 Text ''                                <span class="info-value">'', Slot CertId,
                 Text ''</span>\<newline>''] template_info_bar\<close>
    by (simp add: template_info_bar_def sublist_Cons_right)
  from doc_sublist [OF in_info_bar [OF this], of e data]
  show ?thesis by (simp add: render_parts_def info_item_def)
qed

lemma technician_in_doc:
  \<open>sublist (info_item ''Technician'' (dict_get data ''technician_name'' ''N/A''))
     (create_certificate_html e data)\<close>
proof -
  have \<open>sublist [Text ''                                <span class="info-label">Technician</span>\<newline>'',
                 Text ''                                <span class="info-value">'',
                 Slot (DataGet ''technician_name'' ''N/A''),
                 Text ''</span>\<newline>''] template_info_bar\<close>
    by (simp add: template_info_bar_def sublist_Cons_right)
  from doc_sublist [OF in_info_bar [OF this], of e data]
  show ?thesis by (simp add: render_parts_def info_item_def)
qed

lemma status_in_doc:
  "sublist (status_item (final_status data)) (create_certificate_html e data)"
proof -
  have \<open>sublist [Text ''                                <span class="info-label">Status</span>\<newline>'',
                 Text (''                                <span class="status-badge"><span class="status-checkmark">'' @
                       [CHR 0xE2, CHR 0x80, CHR 0x9A, CHR 0xC3, CHR 0xBA, CHR 0xC3, CHR 0xAC] @ ''</span>''),
                 Slot FinalStatus,
                 Text ''</span>\<newline>''] template_info_bar\<close>
    by (simp add: template_info_bar_def sublist_Cons_right)
  from doc_sublist [OF in_info_bar [OF this], of e data]
  show ?thesis by (simp add: render_parts_def status_item_def)
qed

lemma data_item_in_doc:
  assumes "sublist (data_item_parts label key) certificate_template"
  shows "sublist (data_item label (dict_get data key ''N/A'')) (create_certificate_html e data)"
  using doc_sublist [OF assms, of e data]
  by (simp add: render_parts_def data_item_parts_def data_item_def)

lemma device_parts:
  "\<forall>(label, key) \<in> set device_fields.
     sublist (data_item_parts label key) template_device_information"
  by (simp add: device_fields_def data_item_parts_def template_device_information_def
      sublist_Cons_right)

lemma process_parts:
  "\<forall>(label, key) \<in> set process_fields.
     sublist (data_item_parts label key) template_sanitization_process"
  by (simp add: process_fields_def data_item_parts_def template_sanitization_process_def
      sublist_Cons_right)

lemma verification_parts:
  "\<forall>(label, key) \<in> set verification_fields.
     sublist (data_item_parts label key) template_verification_results"
  by (simp add: verification_fields_def data_item_parts_def template_verification_results_def
      sublist_Cons_right)

lemma additional_parts:
  "\<forall>(label, key) \<in> set additional_fields.
     sublist (data_item_parts label key) template_additional_information"
  by (simp add: additional_fields_def data_item_parts_def template_additional_information_def
      sublist_Cons_right)

lemma data_grid_in_doc:
  assumes "(label, key) \<in> set data_grid_fields"
  shows "sublist (data_item label (dict_get data key ''N/A'')) (create_certificate_html e data)"
proof -
  from assms have "sublist (data_item_parts label key) certificate_template"
    unfolding data_grid_fields_def
    using device_parts process_parts verification_parts additional_parts
    by (auto intro: in_device_information in_sanitization_process in_verification_results
        in_additional_information)
  then show ?thesis by (rule data_item_in_doc)
qed

lemma notes_in_doc:
  "sublist (notes_item (dict_get data ''notes'' ''N/A'')) (create_certificate_html e data)"
proof -
  have \<open>sublist [Text ''                            <div class="data-label">Notes</div>\<newline>'',
                 Text ''                            <div class="data-value">'',
                 Slot (DataGet ''notes'' ''N/A''),
                 Text ''</div>\<newline>''] template_additional_information\<close>
    by (simp add: template_additional_information_def sublist_Cons_right)
  from doc_sublist [OF in_additional_information [OF this], of e data]
  show ?thesis by (simp add: render_parts_def notes_item_def)
qed

lemma technician_box_in_doc:
  "sublist (signature_box ''Certified Technician''
              (dict_get data ''technician_name'' ''John Smith'')
              (dict_get data ''technician_date'' (take_chars 10 (issue_date e data))))
     (create_certificate_html e data)"
proof -
  have \<open>sublist [Text ''                                <div class="signature-role">Certified Technician</div>\<newline>'',
                 Text ''                                <div class="signature-line"></div>\<newline>'',
                 Text ''                                <div class="signature-name">'',
                 Slot (DataGet ''technician_name'' ''John Smith''),
                 Text ''</div>\<newline>'',
                 Text ''                                <div class="signature-date">Date: '',
                 Slot (DataGetDay ''technician_date''),
                 Text ''</div>\<newline>''] template_signatures\<close>
    by (simp add: template_signatures_def sublist_Cons_right)
  from doc_sublist [OF in_signatures [OF this], of e data]
  show ?thesis by (simp add: render_parts_def signature_box_def signature_name_def)
qed

lemma supervisor_box_in_doc:
  "sublist (signature_box ''Quality Supervisor''
              (dict_get data ''supervisor_name'' ''Jane Doe'')
              (dict_get data ''supervisor_date'' (take_chars 10 (issue_date e data))))
     (create_certificate_html e data)"
proof -
  have \<open>sublist [Text ''                                <div class="signature-role">Quality Supervisor</div>\<newline>'',
                 Text ''                                <div class="signature-line"></div>\<newline>'',
                 Text ''                                <div class="signature-name">'',
                 Slot (DataGet ''supervisor_name'' ''Jane Doe''),
                 Text ''</div>\<newline>'',
                 Text ''                                <div class="signature-date">Date: '',
                 Slot (DataGetDay ''supervisor_date''),
                 Text ''</div>\<newline>''] template_signatures\<close>
    by (simp add: template_signatures_def sublist_Cons_right)
  from doc_sublist [OF in_signatures [OF this], of e data]
  show ?thesis by (simp add: render_parts_def signature_box_def signature_name_def)
qed

lemma signature_name_in_box:
  "sublist (signature_box role name date) doc \<Longrightarrow> sublist (signature_name role name) doc"
  unfolding signature_box_def by (rule sublist_front)

lemma qr_in_doc:
  "sublist (qr_placeholder (cert_id e data)) (create_certificate_html e data)"
proof -
  have \<open>sublist [Text ''                        <div class="qr-code">\<newline>'',
                 Text ''                            QR CODE<br>\<newline>'',
                 Text ''                            '', Slot CertId, Text ''\<newline>''] template_footer\<close>
    by (simp add: template_footer_def sublist_Cons_right)
  from doc_sublist [OF in_footer [OF this], of e data]
  show ?thesis by (simp add: render_parts_def qr_placeholder_def)
qed

lemma footer_in_doc:
  "sublist (footer_line (current_time e) (cert_id e data) (str_lower e (cert_id e data)))
     (create_certificate_html e data)"
proof -
  have "sublist [Text ''                            Generated: '', Slot CurrentTime,
                 Text '' | Document ID: '', Slot CertId,
                 Text '' | Verification: secure-verify.com/'', Slot CertIdLower,
                 Text ''\<newline>''] template_footer"
    by (simp add: template_footer_def sublist_Cons_right)
  from doc_sublist [OF in_footer [OF this], of e data]
  show ?thesis by (simp add: render_parts_def footer_line_def)
qed

lemma doc_not_empty: "create_certificate_html e data \<noteq> []"
  by (simp add: create_certificate_html_def render_parts_def certificate_template_def
      template_head_def lines_093_096_def)

subsection \<open>Steps of the render pipeline\<close>

lemma generate_pdf_fst:
  "fst (generate_pdf gen i p w) = from_file i (files w p) options (pdfkit_config gen)"
  by (simp add: generate_pdf_def log_info_def Let_def split: sum.splits option.splits)

lemma generate_pdf_files: "files (snd (generate_pdf gen i p w)) = files w"
  by (simp add: generate_pdf_def log_info_def Let_def split: sum.splits option.splits)

lemma generate_pdf_calls:
  "renderer_calls (snd (generate_pdf gen i p w)) = renderer_calls w + 1"
  by (simp add: generate_pdf_def log_info_def Let_def split: sum.splits option.splits)

lemma cleanup_deleted:
  assumes "unlink_error i = None"
  shows "fst (cleanup i p pending w) = pending"
    and "files (snd (cleanup i p pending w)) = (files w)(p := None)"
    and "renderer_calls (snd (cleanup i p pending w)) = renderer_calls w"
  using assms by (auto simp: cleanup_def log_info_def)

lemma cleanup_not_deleted:
  assumes "unlink_error i = Some err" and "files w p \<noteq> None"
  shows "cleanup i p pending w = (Inl err, w)"
  using assms by (simp add: cleanup_def)

lemma reraise_fst: "fst (reraise i err w) = Inl err"
  by (simp add: reraise_def)

lemma reraise_files: "files (snd (reraise i err w)) = files w"
  by (simp add: reraise_def log_error_def)

lemma reraise_calls: "renderer_calls (snd (reraise i err w)) = renderer_calls w"
  by (simp add: reraise_def log_error_def)

lemma reraise_log:
  "Error (''Error creating certificate: '' @ err) \<in> set (log (snd (reraise i err w)))"
  by (simp add: reraise_def log_error_def)


lemma create_certificate_reached:
  assumes "named_temporary_file i = Inr p" and "write_error i = None"
  shows "\<exists>w4. files w4 = (files w)(p \<mapsto> create_certificate_html e data)
            \<and> renderer_calls w4 = renderer_calls w
            \<and> create_certificate gen e i data w =
                (let g = generate_pdf gen i p w4;
                     c = cleanup i p (fst g) (snd g)
                 in case fst c of
                      Inl err \<Rightarrow> reraise i err (snd c)
                    | Inr pdf \<Rightarrow> (Inr pdf, snd c))"
proof -
  define w2 where "w2 =
    log_info (''HTML content generated, length: '' @ str_nat (len_chars (create_certificate_html e data)))
      (log_info ''Starting certificate generation...'' w)"
  define w4 where "w4 =
    log_info (''Temporary HTML file created: '' @ p)
      (w2\<lparr>files := (files w2)(p \<mapsto> create_certificate_html e data)\<rparr>)"
  have f: "files w4 = (files w)(p \<mapsto> create_certificate_html e data)"
    by (simp add: w4_def w2_def log_info_def)
  have r: "renderer_calls w4 = renderer_calls w"
    by (simp add: w4_def w2_def log_info_def)
  have c: "create_certificate gen e i data w =
                (let g = generate_pdf gen i p w4;
                     c = cleanup i p (fst g) (snd g)
                 in case fst c of
                      Inl err \<Rightarrow> reraise i err (snd c)
                    | Inr pdf \<Rightarrow> (Inr pdf, snd c))"
    unfolding create_certificate_def w4_def w2_def Let_def case_prod_beta
    by (simp add: assms)
  from f r c show ?thesis by blast
qed

lemma create_certificate_deleted:
  assumes "named_temporary_file i = Inr p" and "write_error i = None"
    and "unlink_error i = None"
  shows "fst (create_certificate gen e i data w)
           = from_file i (Some (create_certificate_html e data)) options (pdfkit_config gen)"
    and "files (snd (create_certificate gen e i data w)) p = None"
    and "q \<noteq> p \<Longrightarrow> files (snd (create_certificate gen e i data w)) q = files w q"
    and "renderer_calls (snd (create_certificate gen e i data w)) = renderer_calls w + 1"
proof -
  from create_certificate_reached [OF assms(1,2), of w e data gen]
  obtain w4 where f: "files w4 = (files w)(p \<mapsto> create_certificate_html e data)"
    and r: "renderer_calls w4 = renderer_calls w"
    and c: "create_certificate gen e i data w =
              (let g = generate_pdf gen i p w4;
                   c = cleanup i p (fst g) (snd g)
               in case fst c of
                    Inl err \<Rightarrow> reraise i err (snd c)
                  | Inr pdf \<Rightarrow> (Inr pdf, snd c))"
    by blast
  let ?g = "generate_pdf gen i p w4"
  let ?c = "cleanup i p (fst ?g) (snd ?g)"
  have pend: "fst ?c = from_file i (Some (create_certificate_html e data)) options (pdfkit_config gen)"
    by (simp add: cleanup_deleted(1) [OF assms(3)] generate_pdf_fst f)
  have fl: "files (snd ?c) = (files w)(p := None)"
    by (simp add: cleanup_deleted(2) [OF assms(3)] generate_pdf_files f)
  have rc: "renderer_calls (snd ?c) = renderer_calls w + 1"
    by (simp add: cleanup_deleted(3) [OF assms(3)] generate_pdf_calls r)
  show "fst (create_certificate gen e i data w)
           = from_file i (Some (create_certificate_html e data)) options (pdfkit_config gen)"
    by (cases "fst ?c") (simp_all add: c Let_def reraise_fst pend [symmetric])
  show "files (snd (create_certificate gen e i data w)) p = None"
    by (cases "fst ?c") (simp_all add: c Let_def reraise_files fl)
  show "q \<noteq> p \<Longrightarrow> files (snd (create_certificate gen e i data w)) q = files w q"
    by (cases "fst ?c") (simp_all add: c Let_def reraise_files fl)
  show "renderer_calls (snd (create_certificate gen e i data w)) = renderer_calls w + 1"
    by (cases "fst ?c") (simp_all add: c Let_def reraise_calls rc)
qed

lemma create_certificate_not_deleted:
  assumes "named_temporary_file i = Inr p" and "write_error i = None"
    and "unlink_error i = Some err"
  shows "fst (create_certificate gen e i data w) = Inl err"
    and "files (snd (create_certificate gen e i data w)) p = Some (create_certificate_html e data)"
    and "Error (''Error creating certificate: '' @ err)
           \<in> set (log (snd (create_certificate gen e i data w)))"
    and "renderer_calls (snd (create_certificate gen e i data w)) = renderer_calls w + 1"
proof -
  from create_certificate_reached [OF assms(1,2), of w e data gen]
  obtain w4 where f: "files w4 = (files w)(p \<mapsto> create_certificate_html e data)"
    and r: "renderer_calls w4 = renderer_calls w"
    and c: "create_certificate gen e i data w =
              (let g = generate_pdf gen i p w4;
                   c = cleanup i p (fst g) (snd g)
               in case fst c of
                    Inl err \<Rightarrow> reraise i err (snd c)
                  | Inr pdf \<Rightarrow> (Inr pdf, snd c))"
    by blast
  let ?g = "generate_pdf gen i p w4"
  have "files (snd ?g) p \<noteq> None"
    by (simp add: generate_pdf_files f)
  from cleanup_not_deleted [OF assms(3) this]
  have cl: "cleanup i p (fst ?g) (snd ?g) = (Inl err, snd ?g)" .
  have cc: "create_certificate gen e i data w = reraise i err (snd ?g)"
    by (simp add: c Let_def cl)
  show "fst (create_certificate gen e i data w) = Inl err"
    by (simp add: cc reraise_fst)
  show "files (snd (create_certificate gen e i data w)) p = Some (create_certificate_html e data)"
    by (simp add: cc reraise_files generate_pdf_files f)
  show "Error (''Error creating certificate: '' @ err)
           \<in> set (log (snd (create_certificate gen e i data w)))"
    unfolding cc by (rule reraise_log)
  show "renderer_calls (snd (create_certificate gen e i data w)) = renderer_calls w + 1"
    by (simp add: cc reraise_calls generate_pdf_calls r)
qed

subsection \<open>The handlers in terms of the pipeline\<close>

lemma generate_certificate_some:
  assumes "data \<noteq> Map.empty"
  shows "fst (generate_certificate gen e i (Inr (Some data)) w) =
     (case fst (create_certificate gen e i data
                  (log_info (''Generating certificate with '' @ str_nat (len_data data)
                               @ '' parameters'') w)) of
        Inr pdf_buffer \<Rightarrow>
          Json [(''success'', JBool True),
                (''message'', JStr ''Professional certificate generated successfully''),
                (''pdf_base64'', JStr (b64encode e pdf_buffer)),
                (''filename'',
                   JStr (''certificate_'' @ dict_get data ''certificate_id'' ''unknown'' @ ''.pdf'')),
                (''generated_at'', JStr (isoformat_now e))] 200
      | Inl err \<Rightarrow>
          Json [(''success'', JBool False),
                (''error'', JStr (''Failed to generate certificate: '' @ err))] 500)"
  using assms
  by (simp add: generate_certificate_def generate_certificate_failed_def no_data_def Let_def
      split: prod.splits sum.splits)

lemma generate_certificate_file_some:
  assumes "data \<noteq> Map.empty"
  shows "fst (generate_certificate_file gen e i (Inr (Some data)) w) =
     (case fst (create_certificate gen e i data
                  (log_info (''Generating certificate file with '' @ str_nat (len_data data)
                               @ '' parameters'') w)) of
        Inr pdf_buffer \<Rightarrow>
          SendFile pdf_buffer
            (''certificate_'' @ dict_get data ''certificate_id'' ''unknown''
               @ ''_'' @ filestamp_now e @ ''.pdf'')
            ''application/pdf''
      | Inl err \<Rightarrow>
          Json [(''success'', JBool False),
                (''error'', JStr (''Failed to generate certificate: '' @ err))] 500)"
  using assms
  by (simp add: generate_certificate_file_def generate_certificate_file_failed_def no_data_def
      Let_def split: prod.splits sum.splits)

lemma example_data_not_empty: "example_data \<noteq> Map.empty" "example_data_no_id \<noteq> Map.empty"
  by (simp_all add: example_data_def example_data_no_id_def)

lemma io_ok_simps:
  "named_temporary_file io_ok = Inr ''/tmp/tmpk3v9x2ab.html''" "write_error io_ok = None"
  "unlink_error io_ok = None" "from_file io_ok content opts config = Inr ''%PDF-1.4''"
  by (simp_all add: io_ok_def)

lemma io_render_fails_simps:
  "named_temporary_file io_render_fails = Inr ''/tmp/tmpk3v9x2ab.html''"
  "write_error io_render_fails = None" "unlink_error io_render_fails = None"
  "from_file io_render_fails content opts config
     = Inl ''wkhtmltopdf reported an error: Exit with code 1''"
  by (simp_all add: io_render_fails_def io_ok_def)

lemma io_both_fail_simps:
  "named_temporary_file io_both_fail = Inr ''/tmp/tmpk3v9x2ab.html''"
  "write_error io_both_fail = None"
  "unlink_error io_both_fail = Some ''[Errno 13] Permission denied''"
  "from_file io_both_fail content opts config
     = Inl ''wkhtmltopdf reported an error: Exit with code 1''"
  by (simp_all add: io_both_fail_def io_render_fails_def io_ok_def)

lemma example_env_simps:
  "b64encode example_env bytes = ''JVBERi0xLjQ=''"
  "isoformat_now example_env = ''2024-03-15T14:30:00.250000''"
  "strftime_now example_env = ''2024-03-15 14:30:00''"
  "str_lower example_env = lower"
  by (simp_all add: example_env_def)

subsection \<open>Status badge style\<close>

text \<open>
  C1 (as the code has it). \<^verbatim>\<open>get_status_badge_style\<close> is total and returns one of four
  pairwise different styles, not three. An absent or empty status gets the grey style
  \<open>style_absent\<close>. A non-empty status gets the success style exactly when its lower-cased
  form contains "pass", "success" or "complete"; otherwise the failure style exactly when it
  contains "fail" or "error"; otherwise the amber style \<open>style_other\<close>. So an absent and an
  unrecognized status never get the success or the failure style, but they do not share
  one style.
\<close>

theorem get_status_badge_style_classes:
  "get_status_badge_style st \<in> {style_absent, style_success, style_failure, style_other}
   \<and> distinct [style_absent, style_success, style_failure, style_other]
   \<and> (get_status_badge_style st = style_absent \<longleftrightarrow> st = None \<or> st = Some [])
   \<and> (get_status_badge_style st = style_success \<longleftrightarrow>
          (\<exists>s. st = Some s \<and>
             (sublist ''pass'' (lower s) \<or> sublist ''success'' (lower s)
                \<or> sublist ''complete'' (lower s))))
   \<and> (get_status_badge_style st = style_failure \<longleftrightarrow>
          (\<exists>s. st = Some s \<and>
             \<not> (sublist ''pass'' (lower s) \<or> sublist ''success'' (lower s)
                  \<or> sublist ''complete'' (lower s)) \<and>
             (sublist ''fail'' (lower s) \<or> sublist ''error'' (lower s))))
   \<and> (get_status_badge_style st = style_other \<longleftrightarrow>
          (\<exists>s. st = Some s \<and> s \<noteq> [] \<and>
             \<not> (sublist ''pass'' (lower s) \<or> sublist ''success'' (lower s)
                  \<or> sublist ''complete'' (lower s)) \<and>
             \<not> (sublist ''fail'' (lower s) \<or> sublist ''error'' (lower s))))"
proof (cases st)
  case None
  then show ?thesis using styles_distinct by auto
next
  case (Some s)
  show ?thesis
  proof (cases "s = []")
    case True
    with Some show ?thesis using styles_distinct by (auto simp: lower_Nil)
  next
    case False
    with Some show ?thesis using styles_distinct by (auto simp: Let_def)
  qed
qed

text \<open>The theorem at the statuses "PASSED", "Failed - error", "pending", "" and at no status.\<close>

theorem get_status_badge_style_classes_witness:
  "get_status_badge_style (Some ''PASSED'') = style_success
   \<and> get_status_badge_style (Some ''Failed - error'') = style_failure
   \<and> get_status_badge_style (Some ''pending'') = style_other
   \<and> get_status_badge_style (Some '''') = style_absent
   \<and> get_status_badge_style None = style_absent"
proof -
  have l: "lower ''PASSED'' = ''passed''" "lower ''Failed - error'' = ''failed - error''"
    "lower ''pending'' = ''pending''"
    by code_simp+
  from get_status_badge_style_classes [of "Some ''PASSED''"]
    get_status_badge_style_classes [of "Some ''Failed - error''"]
    get_status_badge_style_classes [of "Some ''pending''"]
    get_status_badge_style_classes [of "Some ''''"]
    get_status_badge_style_classes [of None]
  show ?thesis by (simp add: l sublist_Cons_right)
qed

text \<open>
  C1 as stated fails: "pending" contains none of the five tokens, and its style is not
  the style of an absent status.
\<close>

theorem unrecognized_and_absent_styles_differ:
  "\<not> sublist ''pass'' (lower ''pending'') \<and> \<not> sublist ''success'' (lower ''pending'')
   \<and> \<not> sublist ''complete'' (lower ''pending'') \<and> \<not> sublist ''fail'' (lower ''pending'')
   \<and> \<not> sublist ''error'' (lower ''pending'')
   \<and> get_status_badge_style (Some ''pending'') \<noteq> get_status_badge_style None"
proof -
  have l: "lower ''pending'' = ''pending''"
    by code_simp
  show ?thesis
    by (simp add: l sublist_Cons_right style_absent_def style_other_def)
qed

text \<open>
  C4. The success tokens are tested first: a status whose lower-cased form contains a
  success token and a failure token gets the success style, not the failure style.
\<close>

theorem success_checked_before_failure:
  assumes "sublist ''pass'' (lower s) \<or> sublist ''success'' (lower s) \<or> sublist ''complete'' (lower s)"
    and "sublist ''fail'' (lower s) \<or> sublist ''error'' (lower s)"
  shows "get_status_badge_style (Some s) = style_success
         \<and> get_status_badge_style (Some s) \<noteq> style_failure"
proof -
  from assms(1) have "s \<noteq> []" by (auto simp: lower_Nil)
  with assms(1) have "get_status_badge_style (Some s) = style_success" by (simp add: Let_def)
  then show ?thesis using styles_distinct by simp
qed

theorem success_checked_before_failure_witness:
  "sublist ''pass'' (lower ''failed but passed retry'')
   \<and> sublist ''fail'' (lower ''failed but passed retry'')
   \<and> get_status_badge_style (Some ''failed but passed retry'') = style_success
   \<and> get_status_badge_style (Some ''failed but passed retry'') \<noteq> style_failure"
proof -
  have p: "sublist ''pass'' (lower ''failed but passed retry'')"
    by code_simp
  have f: "sublist ''fail'' (lower ''failed but passed retry'')"
    by code_simp
  from success_checked_before_failure [of "''failed but passed retry''"] p f
  show ?thesis by blast
qed

subsection \<open>The composed document\<close>

lemma dict_get_absent: "data key = None \<Longrightarrow> dict_get data key dflt = dflt"
  by (simp add: dict_get_def)

lemma dict_get_present: "data key = Some v \<Longrightarrow> dict_get data key dflt = v"
  by (simp add: dict_get_def)

text \<open>
  C2 (as the code has it). The identifier of the document is the value stored under
  "certificate_id" whenever the key is present, the empty string too; only when the key is
  absent is it "CERT-" followed by the first eight digits of the UUID in upper case, which
  are eight upper-case hexadecimal digits when the UUID is 32 lower-case ones. That one
  value stands in the title, in the Certificate ID field, in the QR placeholder and after
  "Document ID:" in the footer; the verification link has its lower-cased form, the result
  of \<^verbatim>\<open>cert_id.lower()\<close>.
\<close>

theorem cert_id_resolution:
  "cert_id e data =
     (case data ''certificate_id'' of
        Some v \<Rightarrow> v
      | None \<Rightarrow> ''CERT-'' @ upper (take 8 (uuid4_hex e)))
   \<and> (length (uuid4_hex e) = 32 \<and> set (uuid4_hex e) \<subseteq> set ''0123456789abcdef'' \<longrightarrow>
        length (upper (take 8 (uuid4_hex e))) = 8
        \<and> set (upper (take 8 (uuid4_hex e))) \<subseteq> set ''0123456789ABCDEF'')
   \<and> sublist (title_line (cert_id e data)) (create_certificate_html e data)
   \<and> sublist (info_item ''Certificate ID'' (cert_id e data)) (create_certificate_html e data)
   \<and> sublist (qr_placeholder (cert_id e data)) (create_certificate_html e data)
   \<and> sublist (footer_line (current_time e) (cert_id e data) (str_lower e (cert_id e data)))
         (create_certificate_html e data)"
proof -
  have resolve: "cert_id e data =
     (case data ''certificate_id'' of
        Some v \<Rightarrow> v
      | None \<Rightarrow> ''CERT-'' @ upper (take 8 (uuid4_hex e)))"
    by (simp add: cert_id_def dict_get_def split: option.splits)
  have token: "length (uuid4_hex e) = 32 \<and> set (uuid4_hex e) \<subseteq> set ''0123456789abcdef'' \<longrightarrow>
        length (upper (take 8 (uuid4_hex e))) = 8
        \<and> set (upper (take 8 (uuid4_hex e))) \<subseteq> set ''0123456789ABCDEF''"
  proof (intro impI conjI)
    assume h: "length (uuid4_hex e) = 32 \<and> set (uuid4_hex e) \<subseteq> set ''0123456789abcdef''"
    then show "length (upper (take 8 (uuid4_hex e))) = 8"
      by (simp add: upper_def)
    from h show "set (upper (take 8 (uuid4_hex e))) \<subseteq> set ''0123456789ABCDEF''"
      using upper_hex_token by blast
  qed
  from resolve token title_in_doc [of e data] certificate_id_in_doc [of e data]
    qr_in_doc [of e data] footer_in_doc [of e data]
  show ?thesis by blast
qed

text \<open>
  The theorem at the sample clock and UUID: without a "certificate_id" the identifier is
  CERT-1A2B3C4D, and with "CERT-TEST-1" it is that value.
\<close>

theorem cert_id_resolution_witness:
  "length (uuid4_hex example_env) = 32
   \<and> set (uuid4_hex example_env) \<subseteq> set ''0123456789abcdef''
   \<and> cert_id example_env Map.empty = ''CERT-1A2B3C4D''
   \<and> cert_id example_env [''certificate_id'' \<mapsto> ''CERT-TEST-1''] = ''CERT-TEST-1''
   \<and> sublist (title_line ''CERT-1A2B3C4D'') (create_certificate_html example_env Map.empty)
   \<and> sublist (footer_line ''2024-03-15 14:30:00'' ''CERT-1A2B3C4D'' (lower ''CERT-1A2B3C4D''))
         (create_certificate_html example_env Map.empty)"
proof -
  have len: "length (uuid4_hex example_env) = 32"
    by (simp add: example_env_def)
  have hex: "set (uuid4_hex example_env) \<subseteq> set ''0123456789abcdef''"
    by (simp add: example_env_def)
  have up: "upper (take 8 (uuid4_hex example_env)) = ''1A2B3C4D''"
    by code_simp
  have now: "current_time example_env = ''2024-03-15 14:30:00''"
    by (simp add: current_time_def example_env_def)
  from cert_id_resolution [of example_env Map.empty]
    cert_id_resolution [of example_env "[''certificate_id'' \<mapsto> ''CERT-TEST-1'']"]
    len hex up now
  show ?thesis by (auto simp: example_env_simps(4))
qed

text \<open>
  C2 as stated fails for a key that is present with the empty string: the identifier is
  then the empty string, not "CERT-" and a token, and the title is written with it.
\<close>

theorem empty_certificate_id_is_kept:
  "cert_id example_env [''certificate_id'' \<mapsto> ''''] = ''''
   \<and> cert_id example_env [''certificate_id'' \<mapsto> '''']
       \<noteq> ''CERT-'' @ upper (take 8 (uuid4_hex example_env))
   \<and> sublist (title_line '''')
        (create_certificate_html example_env [''certificate_id'' \<mapsto> ''''])"
proof -
  have c: "cert_id example_env [''certificate_id'' \<mapsto> ''''] = ''''"
    by (simp add: cert_id_def dict_get_def)
  from c title_in_doc [of example_env "[''certificate_id'' \<mapsto> '''']"]
  show ?thesis by simp
qed

text \<open>
  C9. The footer line has the identifier as it is after "Document ID:" and, in the
  verification link, what \<^verbatim>\<open>cert_id.lower()\<close> gives; the title, the Certificate ID field and
  the QR placeholder have the identifier as it is. For an ASCII identifier, on which
  \<^verbatim>\<open>str.lower\<close> lower-cases the letters A to Z, the link is the identifier with these letters
  lower-cased, so that link and identifier agree once both are lower-cased.
\<close>

theorem verification_link_lower_cased:
  "sublist (footer_line (current_time e) (cert_id e data) (str_lower e (cert_id e data)))
     (create_certificate_html e data)
   \<and> slot_value e data CertIdLower = str_lower e (slot_value e data CertId)
   \<and> sublist (title_line (cert_id e data)) (create_certificate_html e data)
   \<and> sublist (info_item ''Certificate ID'' (cert_id e data)) (create_certificate_html e data)
   \<and> sublist (qr_placeholder (cert_id e data)) (create_certificate_html e data)
   \<and> ((\<forall>s. is_ascii s \<longrightarrow> str_lower e s = lower s) \<and> is_ascii (cert_id e data) \<longrightarrow>
         sublist (footer_line (current_time e) (cert_id e data) (lower (cert_id e data)))
           (create_certificate_html e data)
         \<and> lower (str_lower e (cert_id e data)) = lower (cert_id e data))"
proof -
  have ascii: "(\<forall>s. is_ascii s \<longrightarrow> str_lower e s = lower s) \<and> is_ascii (cert_id e data) \<longrightarrow>
         sublist (footer_line (current_time e) (cert_id e data) (lower (cert_id e data)))
           (create_certificate_html e data)
         \<and> lower (str_lower e (cert_id e data)) = lower (cert_id e data)"
  proof
    assume h: "(\<forall>s. is_ascii s \<longrightarrow> str_lower e s = lower s) \<and> is_ascii (cert_id e data)"
    then have eq: "str_lower e (cert_id e data) = lower (cert_id e data)"
      by blast
    with footer_in_doc [of e data]
    show "sublist (footer_line (current_time e) (cert_id e data) (lower (cert_id e data)))
           (create_certificate_html e data)
         \<and> lower (str_lower e (cert_id e data)) = lower (cert_id e data)"
      by (simp add: lower_idem)
  qed
  from footer_in_doc [of e data] title_in_doc [of e data] certificate_id_in_doc [of e data]
    qr_in_doc [of e data] ascii
  show ?thesis by simp
qed

text \<open>For "CERT-TEST-1" the link ends in "cert-test-1", which is not the identifier.\<close>

theorem verification_link_lower_cased_witness:
  "is_ascii (cert_id example_env [''certificate_id'' \<mapsto> ''CERT-TEST-1''])
   \<and> sublist (footer_line ''2024-03-15 14:30:00'' ''CERT-TEST-1'' ''cert-test-1'')
     (create_certificate_html example_env [''certificate_id'' \<mapsto> ''CERT-TEST-1''])
   \<and> ''cert-test-1'' \<noteq> ''CERT-TEST-1''"
proof -
  have c: "cert_id example_env [''certificate_id'' \<mapsto> ''CERT-TEST-1''] = ''CERT-TEST-1''"
    by (simp add: cert_id_def dict_get_def)
  have a: "is_ascii ''CERT-TEST-1''"
    by code_simp
  have l: "lower ''CERT-TEST-1'' = ''cert-test-1''"
    by code_simp
  have now: "current_time example_env = ''2024-03-15 14:30:00''"
    by (simp add: current_time_def example_env_def)
  have ag: "\<forall>s. is_ascii s \<longrightarrow> str_lower example_env s = lower s"
    by (simp add: example_env_simps(4))
  from verification_link_lower_cased [of example_env "[''certificate_id'' \<mapsto> ''CERT-TEST-1'']"]
    c a l now ag
  show ?thesis by (simp add: example_env_simps(4))
qed

text \<open>
  C10. When "technician_date" is absent the date of the technician's signature is the
  first ten characters of the issue date, and likewise for the supervisor. The issue date
  is the value of "issue_date" when present, else the clock; one of ten characters or
  fewer is taken whole, and the cut is defined for every length.
\<close>

theorem signature_dates_default_to_issue_day:
  "(data ''technician_date'' = None \<longrightarrow>
      sublist (signature_box ''Certified Technician''
                 (dict_get data ''technician_name'' ''John Smith'')
                 (take_chars 10 (issue_date e data)))
        (create_certificate_html e data))
   \<and> (data ''supervisor_date'' = None \<longrightarrow>
      sublist (signature_box ''Quality Supervisor''
                 (dict_get data ''supervisor_name'' ''Jane Doe'')
                 (take_chars 10 (issue_date e data)))
        (create_certificate_html e data))
   \<and> issue_date e data =
       (case data ''issue_date'' of Some v \<Rightarrow> v | None \<Rightarrow> strftime_now e)
   \<and> len_chars (take_chars 10 (issue_date e data)) = min 10 (len_chars (issue_date e data))
   \<and> (len_chars (issue_date e data) \<le> 10 \<longrightarrow>
         take_chars 10 (issue_date e data) = issue_date e data)
   \<and> (is_ascii (issue_date e data) \<longrightarrow>
         take_chars 10 (issue_date e data) = take 10 (issue_date e data))"
proof -
  have t: "data ''technician_date'' = None \<longrightarrow>
      sublist (signature_box ''Certified Technician''
                 (dict_get data ''technician_name'' ''John Smith'')
                 (take_chars 10 (issue_date e data)))
        (create_certificate_html e data)"
  proof
    assume "data ''technician_date'' = None"
    with technician_box_in_doc [of data e] show
      "sublist (signature_box ''Certified Technician''
                 (dict_get data ''technician_name'' ''John Smith'')
                 (take_chars 10 (issue_date e data)))
        (create_certificate_html e data)"
      by (simp add: dict_get_absent)
  qed
  have s: "data ''supervisor_date'' = None \<longrightarrow>
      sublist (signature_box ''Quality Supervisor''
                 (dict_get data ''supervisor_name'' ''Jane Doe'')
                 (take_chars 10 (issue_date e data)))
        (create_certificate_html e data)"
  proof
    assume "data ''supervisor_date'' = None"
    with supervisor_box_in_doc [of data e] show
      "sublist (signature_box ''Quality Supervisor''
                 (dict_get data ''supervisor_name'' ''Jane Doe'')
                 (take_chars 10 (issue_date e data)))
        (create_certificate_html e data)"
      by (simp add: dict_get_absent)
  qed
  have i: "issue_date e data =
       (case data ''issue_date'' of Some v \<Rightarrow> v | None \<Rightarrow> strftime_now e)"
    by (simp add: issue_date_def dict_get_def current_time_def split: option.splits)
  from t s i len_chars_take_chars [of 10 "issue_date e data"]
    take_chars_all [of "issue_date e data" 10] take_chars_ascii [of "issue_date e data" 10]
  show ?thesis by blast
qed

text \<open>
  The theorem at an issue date with a time of day, cut to the day; at one of four
  characters, taken whole; and at the date "15 Maerz 2024 14:30" written with a-umlaut, one
  character in two bytes, which is cut after "20". No attribute but the issue date is given.
\<close>

theorem signature_dates_default_to_issue_day_witness:
  "sublist (signature_box ''Certified Technician'' ''John Smith'' ''2024-03-15'')
     (create_certificate_html example_env [''issue_date'' \<mapsto> ''2024-03-15 14:30:00''])
   \<and> sublist (signature_box ''Quality Supervisor'' ''Jane Doe'' ''2024-03-15'')
     (create_certificate_html example_env [''issue_date'' \<mapsto> ''2024-03-15 14:30:00''])
   \<and> sublist (signature_box ''Certified Technician'' ''John Smith'' ''2024'')
     (create_certificate_html example_env [''issue_date'' \<mapsto> ''2024''])
   \<and> sublist (signature_box ''Certified Technician'' ''John Smith''
                (''15 M'' @ [CHR 0xC3, CHR 0xA4] @ ''rz 20''))
     (create_certificate_html example_env
        [''issue_date'' \<mapsto> ''15 M'' @ [CHR 0xC3, CHR 0xA4] @ ''rz 2024 14:30''])"
proof -
  have a: "issue_date example_env [''issue_date'' \<mapsto> ''2024-03-15 14:30:00'']
             = ''2024-03-15 14:30:00''"
    by (simp add: issue_date_def dict_get_def)
  have b: "issue_date example_env [''issue_date'' \<mapsto> ''2024''] = ''2024''"
    by (simp add: issue_date_def dict_get_def)
  have c: "issue_date example_env
             [''issue_date'' \<mapsto> ''15 M'' @ [CHR 0xC3, CHR 0xA4] @ ''rz 2024 14:30'']
             = ''15 M'' @ [CHR 0xC3, CHR 0xA4] @ ''rz 2024 14:30''"
    by (simp add: issue_date_def dict_get_def)
  have ta: "take_chars 10 ''2024-03-15 14:30:00'' = ''2024-03-15''"
    by code_simp
  have tb: "take_chars 10 ''2024'' = ''2024''"
    by code_simp
  have tc: "take_chars 10 (''15 M'' @ [CHR 0xC3, CHR 0xA4] @ ''rz 2024 14:30'')
              = ''15 M'' @ [CHR 0xC3, CHR 0xA4] @ ''rz 20''"
    by code_simp
  from signature_dates_default_to_issue_day
         [of "[''issue_date'' \<mapsto> ''2024-03-15 14:30:00'']" example_env]
    signature_dates_default_to_issue_day [of "[''issue_date'' \<mapsto> ''2024'']" example_env]
    signature_dates_default_to_issue_day
         [of "[''issue_date'' \<mapsto> ''15 M'' @ [CHR 0xC3, CHR 0xA4] @ ''rz 2024 14:30'']" example_env]
  show ?thesis
    unfolding a b c ta tb tc by (simp add: dict_get_def)
qed

text \<open>
  C3 (as the code has it). For every attribute set, the empty one too, the document is
  not empty, and a key that is absent shows the default written at its slot. That
  default is "N/A" for the thirty items of the four data grids, for the notes and for the
  technician of the certificate-info bar. It is not "N/A" everywhere: in the signatures
  an absent "technician_name" shows "John Smith" and an absent "supervisor_name" shows
  "Jane Doe", and an absent "final_status" shows "VERIFIED".
\<close>

theorem create_certificate_html_defaults:
  "create_certificate_html e data \<noteq> []
   \<and> (\<forall>(label, key) \<in> set data_grid_fields.
         data key = None \<longrightarrow>
           sublist (data_item label ''N/A'') (create_certificate_html e data))
   \<and> (data ''notes'' = None \<longrightarrow>
         sublist (notes_item ''N/A'') (create_certificate_html e data))
   \<and> (data ''technician_name'' = None \<longrightarrow>
         sublist (info_item ''Technician'' ''N/A'') (create_certificate_html e data)
         \<and> sublist (signature_name ''Certified Technician'' ''John Smith'')
               (create_certificate_html e data))
   \<and> (data ''supervisor_name'' = None \<longrightarrow>
         sublist (signature_name ''Quality Supervisor'' ''Jane Doe'')
           (create_certificate_html e data))
   \<and> (data ''final_status'' = None \<longrightarrow>
         sublist (status_item ''VERIFIED'') (create_certificate_html e data))"
proof -
  have grid: "\<forall>(label, key) \<in> set data_grid_fields.
         data key = None \<longrightarrow>
           sublist (data_item label ''N/A'') (create_certificate_html e data)"
  proof (clarify)
    fix label key
    assume "(label, key) \<in> set data_grid_fields" and "data key = None"
    then show "sublist (data_item label ''N/A'') (create_certificate_html e data)"
      using data_grid_in_doc [of label key data e] by (simp add: dict_get_absent)
  qed
  have nts: "data ''notes'' = None \<longrightarrow>
         sublist (notes_item ''N/A'') (create_certificate_html e data)"
    using notes_in_doc [of data e] by (auto simp: dict_get_absent)
  have tech: "data ''technician_name'' = None \<longrightarrow>
         sublist (info_item ''Technician'' ''N/A'') (create_certificate_html e data)
         \<and> sublist (signature_name ''Certified Technician'' ''John Smith'')
               (create_certificate_html e data)"
    using technician_in_doc [of data e]
      signature_name_in_box [OF technician_box_in_doc [of data e]]
    by (auto simp: dict_get_absent)
  have sup: "data ''supervisor_name'' = None \<longrightarrow>
         sublist (signature_name ''Quality Supervisor'' ''Jane Doe'')
           (create_certificate_html e data)"
    using signature_name_in_box [OF supervisor_box_in_doc [of data e]]
    by (auto simp: dict_get_absent)
  have st: "data ''final_status'' = None \<longrightarrow>
         sublist (status_item ''VERIFIED'') (create_certificate_html e data)"
    using status_in_doc [of data e] by (auto simp: final_status_def dict_get_absent)
  from doc_not_empty [of e data] grid nts tech sup st show ?thesis by blast
qed

text \<open>The theorem at the empty attribute set, where every key is absent.\<close>

theorem create_certificate_html_defaults_witness:
  "create_certificate_html example_env Map.empty \<noteq> []
   \<and> (''Device Type'', ''device_type'') \<in> set data_grid_fields
   \<and> sublist (data_item ''Device Type'' ''N/A'') (create_certificate_html example_env Map.empty)
   \<and> (''Humidity'', ''humidity'') \<in> set data_grid_fields
   \<and> sublist (data_item ''Humidity'' ''N/A'') (create_certificate_html example_env Map.empty)
   \<and> sublist (notes_item ''N/A'') (create_certificate_html example_env Map.empty)
   \<and> sublist (info_item ''Technician'' ''N/A'') (create_certificate_html example_env Map.empty)
   \<and> sublist (signature_name ''Quality Supervisor'' ''Jane Doe'')
         (create_certificate_html example_env Map.empty)
   \<and> sublist (status_item ''VERIFIED'') (create_certificate_html example_env Map.empty)"
proof -
  have d: "(''Device Type'', ''device_type'') \<in> set data_grid_fields"
    by (simp add: data_grid_fields_def device_fields_def)
  have h: "(''Humidity'', ''humidity'') \<in> set data_grid_fields"
    by (simp add: data_grid_fields_def additional_fields_def)
  from create_certificate_html_defaults [of example_env Map.empty] d h
  show ?thesis by auto
qed

text \<open>
  C3 as stated fails: in the document of the empty attribute set, where "technician_name"
  is omitted, the name under the technician's signature is "John Smith" and not "N/A".
\<close>

theorem omitted_technician_name_is_john_smith:
  "Map.empty ''technician_name'' = (None :: string option)
   \<and> sublist (signature_name ''Certified Technician'' ''John Smith'')
        (create_certificate_html example_env Map.empty)
   \<and> signature_name ''Certified Technician'' ''John Smith''
       \<noteq> signature_name ''Certified Technician'' ''N/A''"
proof -
  have "dict_get Map.empty ''technician_name'' ''John Smith'' = ''John Smith''"
    by (simp add: dict_get_def)
  with signature_name_in_box [OF technician_box_in_doc [of Map.empty example_env]]
  show ?thesis by (simp add: signature_name_def)
qed

subsection \<open>The render pipeline\<close>

text \<open>
  C5 (as the code has it). After an invocation that created and wrote its temporary file,
  whether the renderer returned the artifact or failed: if the deletion of the file does
  not fail, the file no longer exists, no other file is touched, and the pipeline gives
  what the renderer gave, artifact or error; if the deletion fails, the failure is not
  contained: its exception replaces the artifact or the renderer's error, the file stays,
  and the message is logged by the handler of \<^verbatim>\<open>create_certificate\<close> before it is raised again.
\<close>

theorem cleanup_after_renderer:
  assumes "named_temporary_file i = Inr p" and "write_error i = None"
  shows "(unlink_error i = None \<longrightarrow>
            files (snd (create_certificate gen e i data w)) p = None
            \<and> (\<forall>q. q \<noteq> p \<longrightarrow> files (snd (create_certificate gen e i data w)) q = files w q)
            \<and> fst (create_certificate gen e i data w)
                = from_file i (Some (create_certificate_html e data)) options (pdfkit_config gen))
         \<and> (\<forall>err. unlink_error i = Some err \<longrightarrow>
               fst (create_certificate gen e i data w) = Inl err
               \<and> files (snd (create_certificate gen e i data w)) p \<noteq> None
               \<and> Error (''Error creating certificate: '' @ err)
                    \<in> set (log (snd (create_certificate gen e i data w))))"
proof (intro conjI impI allI)
  assume u: "unlink_error i = None"
  show "files (snd (create_certificate gen e i data w)) p = None"
    by (rule create_certificate_deleted(2) [OF assms u])
  show "fst (create_certificate gen e i data w)
          = from_file i (Some (create_certificate_html e data)) options (pdfkit_config gen)"
    by (rule create_certificate_deleted(1) [OF assms u])
  fix q assume "q \<noteq> p"
  then show "files (snd (create_certificate gen e i data w)) q = files w q"
    by (rule create_certificate_deleted(3) [OF assms u])
next
  fix err assume u: "unlink_error i = Some err"
  show "fst (create_certificate gen e i data w) = Inl err"
    by (rule create_certificate_not_deleted(1) [OF assms u])
  show "files (snd (create_certificate gen e i data w)) p \<noteq> None"
    by (simp add: create_certificate_not_deleted(2) [OF assms u])
  show "Error (''Error creating certificate: '' @ err)
          \<in> set (log (snd (create_certificate gen e i data w)))"
    by (rule create_certificate_not_deleted(3) [OF assms u])
qed

text \<open>
  The theorem where all goes well, where the renderer fails, and where the deletion fails
  after the renderer has returned the PDF.
\<close>

theorem cleanup_after_renderer_witness:
  "named_temporary_file io_ok = Inr ''/tmp/tmpk3v9x2ab.html'' \<and> write_error io_ok = None
   \<and> unlink_error io_ok = None
   \<and> files (snd (create_certificate example_gen example_env io_ok Map.empty empty_world))
        ''/tmp/tmpk3v9x2ab.html'' = None
   \<and> fst (create_certificate example_gen example_env io_ok Map.empty empty_world)
        = Inr ''%PDF-1.4''
   \<and> files (snd (create_certificate example_gen example_env io_render_fails Map.empty empty_world))
        ''/tmp/tmpk3v9x2ab.html'' = None
   \<and> fst (create_certificate example_gen example_env io_render_fails Map.empty empty_world)
        = Inl ''wkhtmltopdf reported an error: Exit with code 1''
   \<and> unlink_error io_unlink_fails = Some ''[Errno 13] Permission denied''
   \<and> fst (create_certificate example_gen example_env io_unlink_fails Map.empty empty_world)
        = Inl ''[Errno 13] Permission denied''"
proof -
  have ok: "named_temporary_file io_ok = Inr ''/tmp/tmpk3v9x2ab.html''" "write_error io_ok = None"
    "unlink_error io_ok = None"
    by (simp_all add: io_ok_def)
  have rf: "named_temporary_file io_render_fails = Inr ''/tmp/tmpk3v9x2ab.html''"
    "write_error io_render_fails = None" "unlink_error io_render_fails = None"
    by (simp_all add: io_render_fails_def io_ok_def)
  have uf: "named_temporary_file io_unlink_fails = Inr ''/tmp/tmpk3v9x2ab.html''"
    "write_error io_unlink_fails = None"
    "unlink_error io_unlink_fails = Some ''[Errno 13] Permission denied''"
    by (simp_all add: io_unlink_fails_def io_ok_def)
  from cleanup_after_renderer [OF ok(1,2), of example_gen example_env Map.empty empty_world]
    cleanup_after_renderer [OF rf(1,2), of example_gen example_env Map.empty empty_world]
    cleanup_after_renderer [OF uf(1,2), of example_gen example_env Map.empty empty_world]
    ok rf uf
  show ?thesis by (simp add: io_ok_def io_render_fails_def)
qed

text \<open>
  C5 as stated fails: the renderer returns the PDF, the deletion fails, and the pipeline
  raises the error of the deletion in place of the PDF; the temporary file still exists.
\<close>

theorem unlink_failure_replaces_result:
  "from_file io_unlink_fails (Some (create_certificate_html example_env Map.empty)) options
       (pdfkit_config example_gen) = Inr ''%PDF-1.4''
   \<and> fst (create_certificate example_gen example_env io_unlink_fails Map.empty empty_world)
       = Inl ''[Errno 13] Permission denied''
   \<and> files (snd (create_certificate example_gen example_env io_unlink_fails Map.empty empty_world))
        ''/tmp/tmpk3v9x2ab.html'' \<noteq> None"
proof -
  have uf: "named_temporary_file io_unlink_fails = Inr ''/tmp/tmpk3v9x2ab.html''"
    "write_error io_unlink_fails = None"
    "unlink_error io_unlink_fails = Some ''[Errno 13] Permission denied''"
    by (simp_all add: io_unlink_fails_def io_ok_def)
  have r: "from_file io_unlink_fails (Some (create_certificate_html example_env Map.empty)) options
       (pdfkit_config example_gen) = Inr ''%PDF-1.4''"
    by (simp add: io_unlink_fails_def io_ok_def)
  from r create_certificate_not_deleted(1) [OF uf, of example_gen example_env Map.empty empty_world]
    create_certificate_not_deleted(2) [OF uf, of example_gen example_env Map.empty empty_world]
  show ?thesis by simp
qed

subsection \<open>The request handlers\<close>

text \<open>
  C8 (as the code has it). When the renderer fails, and the deletion of the temporary
  file does not fail in its turn, \<^verbatim>\<open>create_certificate\<close> raises the renderer's exception
  with its message, after one call of the renderer and without an artifact; the file is
  deleted; \<^verbatim>\<open>generate_certificate\<close> and \<^verbatim>\<open>generate_certificate_file\<close> answer with status 500,
  \<^verbatim>\<open>success\<close> false and the message after "Failed to generate certificate: ".
\<close>

theorem renderer_failure_propagates:
  assumes "named_temporary_file i = Inr p" and "write_error i = None"
    and "unlink_error i = None"
    and "from_file i (Some (create_certificate_html e data)) options (pdfkit_config gen) = Inl msg"
    and "data \<noteq> Map.empty"
  shows "fst (create_certificate gen e i data w) = Inl msg
     \<and> renderer_calls (snd (create_certificate gen e i data w)) = renderer_calls w + 1
     \<and> files (snd (create_certificate gen e i data w)) p = None
     \<and> fst (generate_certificate gen e i (Inr (Some data)) w)
         = Json [(''success'', JBool False),
                 (''error'', JStr (''Failed to generate certificate: '' @ msg))] 500
     \<and> fst (generate_certificate_file gen e i (Inr (Some data)) w)
         = Json [(''success'', JBool False),
                 (''error'', JStr (''Failed to generate certificate: '' @ msg))] 500"
proof -
  have r: "fst (create_certificate gen e i data w') = Inl msg" for w'
    using create_certificate_deleted(1) [OF assms(1,2,3), of gen e data w'] assms(4)
    by simp
  from r [of w] create_certificate_deleted(2,4) [OF assms(1,2,3), of gen e data w]
    generate_certificate_some [OF assms(5), of gen e i w]
    generate_certificate_file_some [OF assms(5), of gen e i w]
  show ?thesis by (simp add: r)
qed

text \<open>The theorem for a renderer that exits with code 1, on the sample attribute set.\<close>

theorem renderer_failure_propagates_witness:
  "named_temporary_file io_render_fails = Inr ''/tmp/tmpk3v9x2ab.html''
   \<and> write_error io_render_fails = None \<and> unlink_error io_render_fails = None
   \<and> example_data \<noteq> Map.empty
   \<and> fst (create_certificate example_gen example_env io_render_fails example_data empty_world)
       = Inl ''wkhtmltopdf reported an error: Exit with code 1''
   \<and> renderer_calls
        (snd (create_certificate example_gen example_env io_render_fails example_data empty_world))
       = 1
   \<and> fst (generate_certificate example_gen example_env io_render_fails (Inr (Some example_data))
             empty_world)
       = Json [(''success'', JBool False),
               (''error'', JStr ''Failed to generate certificate: wkhtmltopdf reported an error: Exit with code 1'')]
           500"
  using renderer_failure_propagates
          [OF io_render_fails_simps(1,2,3) io_render_fails_simps(4) example_data_not_empty(1),
           where w = empty_world and e = example_env and gen = example_gen]
    io_render_fails_simps(1,2,3) example_data_not_empty(1)
  by (simp add: empty_world_def)

text \<open>
  C8 as stated fails when the deletion fails too: the renderer's diagnostic is lost, the
  pipeline raises the error of the deletion, and that is the text of the response.
\<close>

theorem renderer_diagnostic_lost:
  "from_file io_both_fail (Some (create_certificate_html example_env example_data)) options
       (pdfkit_config example_gen) = Inl ''wkhtmltopdf reported an error: Exit with code 1''
   \<and> fst (create_certificate example_gen example_env io_both_fail example_data empty_world)
       = Inl ''[Errno 13] Permission denied''
   \<and> fst (generate_certificate example_gen example_env io_both_fail (Inr (Some example_data))
             empty_world)
       = Json [(''success'', JBool False),
               (''error'', JStr ''Failed to generate certificate: [Errno 13] Permission denied'')]
           500"
proof -
  have r: "fst (create_certificate example_gen example_env io_both_fail example_data w')
             = Inl ''[Errno 13] Permission denied''" for w'
    by (rule create_certificate_not_deleted(1) [OF io_both_fail_simps(1,2,3)])
  from generate_certificate_some [OF example_data_not_empty(1),
         of example_gen example_env io_both_fail empty_world]
  show ?thesis by (simp add: r io_both_fail_simps(4))
qed

text \<open>
  C6 (as the code has it). When rendering succeeds on a non-empty attribute set,
  \<^verbatim>\<open>generate_certificate\<close> answers with \<^verbatim>\<open>success\<close> true and the file name "certificate_",
  the value of "certificate_id", ".pdf". With the key present that value is the identifier
  of the document; with the key absent the name is "certificate_unknown.pdf", whatever
  identifier the document was given.
\<close>

theorem generate_certificate_filename:
  assumes "named_temporary_file i = Inr p" and "write_error i = None"
    and "unlink_error i = None"
    and "from_file i (Some (create_certificate_html e data)) options (pdfkit_config gen) = Inr pdf"
    and "data \<noteq> Map.empty"
  shows "fst (generate_certificate gen e i (Inr (Some data)) w)
         = Json [(''success'', JBool True),
                 (''message'', JStr ''Professional certificate generated successfully''),
                 (''pdf_base64'', JStr (b64encode e pdf)),
                 (''filename'',
                    JStr (''certificate_'' @ dict_get data ''certificate_id'' ''unknown'' @ ''.pdf'')),
                 (''generated_at'', JStr (isoformat_now e))] 200
     \<and> (\<forall>v. data ''certificate_id'' = Some v \<longrightarrow>
           dict_get data ''certificate_id'' ''unknown'' = v \<and> cert_id e data = v)
     \<and> (data ''certificate_id'' = None \<longrightarrow>
           dict_get data ''certificate_id'' ''unknown'' = ''unknown'')"
proof -
  have r: "fst (create_certificate gen e i data w') = Inr pdf" for w'
    using create_certificate_deleted(1) [OF assms(1,2,3), of gen e data w'] assms(4)
    by simp
  from generate_certificate_some [OF assms(5), of gen e i w]
  show ?thesis by (simp add: r dict_get_def cert_id_def)
qed

text \<open>The theorem on the sample attribute set, whose identifier is CERT-TEST-1.\<close>

theorem generate_certificate_filename_witness:
  "named_temporary_file io_ok = Inr ''/tmp/tmpk3v9x2ab.html'' \<and> write_error io_ok = None
   \<and> unlink_error io_ok = None \<and> example_data \<noteq> Map.empty
   \<and> example_data ''certificate_id'' = Some ''CERT-TEST-1''
   \<and> cert_id example_env example_data = ''CERT-TEST-1''
   \<and> fst (generate_certificate example_gen example_env io_ok (Inr (Some example_data)) empty_world)
       = Json [(''success'', JBool True),
               (''message'', JStr ''Professional certificate generated successfully''),
               (''pdf_base64'', JStr ''JVBERi0xLjQ=''),
               (''filename'', JStr ''certificate_CERT-TEST-1.pdf''),
               (''generated_at'', JStr ''2024-03-15T14:30:00.250000'')] 200"
proof -
  have k: "example_data ''certificate_id'' = Some ''CERT-TEST-1''"
    by (simp add: example_data_def)
  from generate_certificate_filename
         [OF io_ok_simps(1,2,3) io_ok_simps(4) example_data_not_empty(1),
          where w = empty_world and e = example_env and gen = example_gen]
    io_ok_simps(1,2,3) example_data_not_empty(1) k
  show ?thesis by (simp add: example_env_simps)
qed

text \<open>
  C6 as stated fails without a "certificate_id": the document is given the identifier
  CERT-1A2B3C4D, and the file name is "certificate_unknown.pdf".
\<close>

theorem filename_unknown_without_certificate_id:
  "example_data_no_id ''certificate_id'' = None
   \<and> cert_id example_env example_data_no_id = ''CERT-1A2B3C4D''
   \<and> sublist (title_line ''CERT-1A2B3C4D'') (create_certificate_html example_env example_data_no_id)
   \<and> fst (generate_certificate example_gen example_env io_ok (Inr (Some example_data_no_id)) empty_world)
       = Json [(''success'', JBool True),
               (''message'', JStr ''Professional certificate generated successfully''),
               (''pdf_base64'', JStr ''JVBERi0xLjQ=''),
               (''filename'', JStr ''certificate_unknown.pdf''),
               (''generated_at'', JStr ''2024-03-15T14:30:00.250000'')] 200"
proof -
  have k: "example_data_no_id ''certificate_id'' = None"
    by (simp add: example_data_no_id_def)
  have up: "upper (take 8 (uuid4_hex example_env)) = ''1A2B3C4D''"
    by code_simp
  have c: "cert_id example_env example_data_no_id = ''CERT-1A2B3C4D''"
    by (simp add: cert_id_def dict_get_def k up)
  have r: "fst (create_certificate example_gen example_env io_ok example_data_no_id w')
             = Inr ''%PDF-1.4''" for w'
    using create_certificate_deleted(1) [OF io_ok_simps(1,2,3),
            of example_gen example_env example_data_no_id w']
    by (simp add: io_ok_simps(4))
  from generate_certificate_some [OF example_data_not_empty(2),
         of example_gen example_env io_ok empty_world]
    title_in_doc [of example_env example_data_no_id] k c
  show ?thesis by (simp add: r dict_get_def example_env_simps)
qed

text \<open>
  C7 (as the code has it). When \<^verbatim>\<open>get_json\<close> returns no attribute set, \<^verbatim>\<open>None\<close> or the empty
  dictionary, \<^verbatim>\<open>generate_certificate\<close>, \<^verbatim>\<open>generate_certificate_file\<close> and \<^verbatim>\<open>preview_certificate\<close>
  answer with status 400 and the error "No data provided", and nothing else happens;
  \<^verbatim>\<open>test_endpoint\<close> gives its usual answer, status 200, with 0 received parameters. When
  \<^verbatim>\<open>get_json\<close> raises, as for a request without a JSON body, the three handlers answer with
  status 500, \<^verbatim>\<open>success\<close> false and the message of the exception.
\<close>

theorem no_data_responses:
  "no_data None \<and> no_data (Some Map.empty)
   \<and> (no_data data \<longrightarrow>
        generate_certificate gen e i (Inr data) w
          = (Json [(''error'', JStr ''No data provided'')] 400, w)
        \<and> generate_certificate_file gen e i (Inr data) w
          = (Json [(''error'', JStr ''No data provided'')] 400, w)
        \<and> preview_certificate e (Inr data) w
          = (Json [(''error'', JStr ''No data provided'')] 400, w)
        \<and> test_endpoint e (Inr data)
          = Inr (Json [(''message'', JStr ''Professional Certificate API is working''),
                       (''received_params'', JNum 0),
                       (''timestamp'', JStr (isoformat_now e))] 200))
   \<and> fst (generate_certificate gen e i (Inl err) w)
       = Json [(''success'', JBool False),
               (''error'', JStr (''Failed to generate certificate: '' @ err))] 500
   \<and> fst (generate_certificate_file gen e i (Inl err) w)
       = Json [(''success'', JBool False),
               (''error'', JStr (''Failed to generate certificate: '' @ err))] 500
   \<and> fst (preview_certificate e (Inl err) w)
       = Json [(''success'', JBool False),
               (''error'', JStr (''Failed to generate preview: '' @ err))] 500"
  by (simp add: no_data_def generate_certificate_def generate_certificate_file_def
      generate_certificate_failed_def generate_certificate_file_failed_def
      preview_certificate_def test_endpoint_def)

text \<open>The theorem for the body \<^verbatim>\<open>null\<close>, for the empty dictionary, and for a request without a body.\<close>

theorem no_data_responses_witness:
  "no_data None
   \<and> generate_certificate example_gen example_env io_ok (Inr None) empty_world
       = (Json [(''error'', JStr ''No data provided'')] 400, empty_world)
   \<and> generate_certificate_file example_gen example_env io_ok (Inr (Some Map.empty)) empty_world
       = (Json [(''error'', JStr ''No data provided'')] 400, empty_world)
   \<and> preview_certificate example_env (Inr None) empty_world
       = (Json [(''error'', JStr ''No data provided'')] 400, empty_world)
   \<and> fst (generate_certificate example_gen example_env io_ok
             (Inl ''415 Unsupported Media Type'') empty_world)
       = Json [(''success'', JBool False),
               (''error'', JStr ''Failed to generate certificate: 415 Unsupported Media Type'')]
           500"
  using no_data_responses [of None example_gen example_env io_ok empty_world
          "''415 Unsupported Media Type''"]
    no_data_responses [of "Some Map.empty" example_gen example_env io_ok empty_world
          "''415 Unsupported Media Type''"]
  by simp

text \<open>
  C7 as stated fails for \<^verbatim>\<open>test_endpoint\<close>: for the body \<^verbatim>\<open>null\<close> its answer is the normal one,
  with status 200.
\<close>

theorem test_endpoint_without_data:
  "test_endpoint example_env (Inr None)
     = Inr (Json [(''message'', JStr ''Professional Certificate API is working''),
                  (''received_params'', JNum 0),
                  (''timestamp'', JStr ''2024-03-15T14:30:00.250000'')] 200)"
  by (simp add: test_endpoint_def no_data_def example_env_simps)

text \<open>
  \<^verbatim>\<open>test_endpoint\<close> calls \<^verbatim>\<open>get_json\<close> outside of any \<^verbatim>\<open>try\<close>: when the call raises, the
  exception leaves the handler.
\<close>

lemma test_endpoint_get_json_raises: "test_endpoint e (Inl err) = Inl err"
  by (simp add: test_endpoint_def)

end
